theory Spec2Isabelle
  imports Complex_Main "HOL-Library.Word" "HOL-Library.Product_Lexorder"
begin

unbundle bit_operations_syntax

section \<open>Shared utilities\<close>

text \<open>
  Quality flags are Python dictionaries from strings to JSON scalars. They are modelled
  as maps; \<open>dict.update\<close> is \<open>++\<close> and an item assignment is a map update.
\<close>

datatype jv = JBool bool | JStr string | JInt int | JNull

type_synonym flags = "string \<rightharpoonup> jv"

text \<open>
  \<open>_deadline_exceeded(deadline)\<close> reads the monotonic clock. Within one call of a stage
  the \<open>k\<close>-th reading is \<open>clock k\<close>; a stage threads the number of readings made so far.
\<close>

type_synonym clock = "nat \<Rightarrow> bool"

text \<open>The two exception classes the stages distinguish.\<close>

datatype exn = TimeoutError string | Exception string

definition clamp01 :: "real \<Rightarrow> real" where
  "clamp01 v = (if v < 0 then 0 else if v > 1 then 1 else v)"

subsection \<open>Truncated products with a double constant\<close>

text \<open>
  The thresholds of the form \<open>int(n * c)\<close> multiply an integer by a double constant and
  truncate. The constant is the double nearest to the decimal literal, the product is
  rounded to 53 significant bits (ties to even) and only then truncated, so that for
  instance \<open>int(180 * 0.35)\<close> is 62. \<open>py_int_mul n m e\<close> is \<open>int(n * c)\<close> for the double
  \<open>c = m / 2 ^ e\<close>.
\<close>

fun nbits :: "nat \<Rightarrow> nat" where
  "nbits n = (if n = 0 then 0 else Suc (nbits (n div 2)))"

declare nbits.simps [simp del]

definition round53 :: "nat \<Rightarrow> nat" where
  "round53 N =
     (let k = nbits N - 53; q = N div 2 ^ k; r = N mod 2 ^ k
      in if 2 * r > 2 ^ k \<or> (2 * r = 2 ^ k \<and> odd q) then (q + 1) * 2 ^ k else q * 2 ^ k)"

definition py_int_mul :: "nat \<Rightarrow> nat \<Rightarrow> nat \<Rightarrow> nat" where
  "py_int_mul n m e = round53 (n * m) div 2 ^ e"

text \<open>\<open>int(n * 0.35)\<close>\<close>

definition int_mul_0_35 :: "nat \<Rightarrow> nat" where
  "int_mul_0_35 n = py_int_mul n 6305039478318694 54"

subsection \<open>Double-precision arithmetic\<close>

text \<open>
  The floats of the code are IEEE 754 doubles. A finite double is the real number it
  denotes, so that the two zeros are one value, as they are under Python's \<open>==\<close>.
  \<open>rnd\<close> rounds a real number to the nearest double, ties to even: the significand has 53
  bits and the exponent of its last bit is at least -1074. \<open>ilog2 x\<close> is the exponent of the
  leading bit of \<open>x > 0\<close>.
\<close>

definition pow2 :: "int \<Rightarrow> real" where
  "pow2 e = (if 0 \<le> e then 2 ^ nat e else 1 / 2 ^ nat (- e))"

definition ilog2 :: "real \<Rightarrow> int" where
  "ilog2 x = (if 1 \<le> x then int (nbits (nat \<lfloor>x\<rfloor>)) - 1
              else - int (nbits (nat (\<lceil>1 / x\<rceil> - 1))))"

definition round_half_even :: "real \<Rightarrow> int" where
  "round_half_even q =
     (let f = \<lfloor>q\<rfloor>; r = q - real_of_int f
      in if 1 / 2 < r \<or> (r = 1 / 2 \<and> odd f) then f + 1 else f)"

definition rnd :: "real \<Rightarrow> real" where
  "rnd x =
     (if x = 0 then 0
      else
        (let s = max (ilog2 \<bar>x\<bar> - 52) (- 1074)
         in sgn x * real_of_int (round_half_even (\<bar>x\<bar> / pow2 s)) * pow2 s))"

text \<open>
  A double is a NaN, an infinity or finite. \<open>round_double\<close> is the double of an exact
  result: a result that rounds to \<open>2 ^ 1024\<close> or beyond overflows to an infinity.
\<close>

datatype double = NaN | NInf | Finite real | PInf

definition round_double :: "real \<Rightarrow> double" where
  "round_double x =
     (let r = rnd x
      in if 2 ^ 1024 \<le> r then PInf else if r \<le> - (2 ^ 1024) then NInf else Finite r)"

fun fneg :: "double \<Rightarrow> double" where
  "fneg NaN = NaN"
| "fneg NInf = PInf"
| "fneg PInf = NInf"
| "fneg (Finite x) = Finite (- x)"

fun fabs :: "double \<Rightarrow> double" where
  "fabs NaN = NaN"
| "fabs NInf = PInf"
| "fabs PInf = PInf"
| "fabs (Finite x) = Finite \<bar>x\<bar>"

fun fadd :: "double \<Rightarrow> double \<Rightarrow> double" where
  "fadd (Finite x) (Finite y) = round_double (x + y)"
| "fadd NaN y = NaN"
| "fadd x NaN = NaN"
| "fadd PInf NInf = NaN"
| "fadd NInf PInf = NaN"
| "fadd PInf y = PInf"
| "fadd x PInf = PInf"
| "fadd NInf y = NInf"
| "fadd x NInf = NInf"

definition fsub :: "double \<Rightarrow> double \<Rightarrow> double" where
  "fsub x y = fadd x (fneg y)"

fun fmul :: "double \<Rightarrow> double \<Rightarrow> double" where
  "fmul (Finite x) (Finite y) = round_double (x * y)"
| "fmul NaN y = NaN"
| "fmul x NaN = NaN"
| "fmul (Finite x) PInf = (if x = 0 then NaN else if 0 < x then PInf else NInf)"
| "fmul (Finite x) NInf = (if x = 0 then NaN else if 0 < x then NInf else PInf)"
| "fmul PInf (Finite y) = (if y = 0 then NaN else if 0 < y then PInf else NInf)"
| "fmul NInf (Finite y) = (if y = 0 then NaN else if 0 < y then NInf else PInf)"
| "fmul PInf PInf = PInf"
| "fmul NInf NInf = PInf"
| "fmul PInf NInf = NInf"
| "fmul NInf PInf = NInf"

text \<open>
  The order of the doubles, with NaN below every other value. On doubles other than NaN
  it is the order in which Python compares and sorts them; \<open>0\<close> and \<open>1\<close> are the doubles
  \<open>0.0\<close> and \<open>1.0\<close>.
\<close>

fun dkey :: "double \<Rightarrow> int \<times> real" where
  "dkey NaN = (- 2, 0)"
| "dkey NInf = (- 1, 0)"
| "dkey (Finite x) = (0, x)"
| "dkey PInf = (1, 0)"

instantiation double :: "{zero, one, linorder}"
begin

definition zero_double :: double where
  "zero_double = Finite 0"

definition one_double :: double where
  "one_double = Finite 1"

definition less_eq_double :: "double \<Rightarrow> double \<Rightarrow> bool" where
  "less_eq_double x y \<longleftrightarrow> dkey x \<le> dkey y"

definition less_double :: "double \<Rightarrow> double \<Rightarrow> bool" where
  "less_double x y \<longleftrightarrow> dkey x < dkey y"

instance
proof
  fix x y z :: double
  show "(x < y) = (x \<le> y \<and> \<not> y \<le> x)"
    by (auto simp: less_eq_double_def less_double_def)
  show "x \<le> x" by (simp add: less_eq_double_def)
  show "x \<le> y \<Longrightarrow> y \<le> z \<Longrightarrow> x \<le> z" by (simp add: less_eq_double_def)
  show "x \<le> y \<Longrightarrow> y \<le> x \<Longrightarrow> x = y"
    by (cases x; cases y) (auto simp: less_eq_double_def)
  show "x \<le> y \<or> y \<le> x" by (auto simp: less_eq_double_def)
qed

end

text \<open>\<open>x < y\<close> on floats: false as soon as one of them is NaN.\<close>

definition flt :: "double \<Rightarrow> double \<Rightarrow> bool" where
  "flt x y \<longleftrightarrow> x \<noteq> NaN \<and> y \<noteq> NaN \<and> x < y"

text \<open>
  \<open>float(n)\<close> for an integer \<open>n\<close>, also where an integer operand meets a float. Python
  raises \<open>OverflowError\<close> for an integer that rounds to \<open>2 ^ 1024\<close> or beyond, that is
  unless \<open>float_fits n\<close>; the conversion is total here and yields an infinity there. The
  integers converted are pixel coordinates.
\<close>

definition to_double :: "int \<Rightarrow> double" where
  "to_double n = round_double (real_of_int n)"

definition float_fits :: "int \<Rightarrow> bool" where
  "float_fits n \<longleftrightarrow> \<bar>real_of_int n\<bar> < 2 ^ 1024 - 2 ^ 970"

text \<open>
  \<open>n / m\<close> on integers with \<open>m \<noteq> 0\<close>: the true division of Python rounds the exact
  quotient. Like \<open>float\<close> it raises \<open>OverflowError\<close> beyond the range of a double and is
  total here; the quotients taken are a height over the largest height and half a pixel
  height.
\<close>

definition int_truediv :: "int \<Rightarrow> int \<Rightarrow> double" where
  "int_truediv n m = round_double (real_of_int n / real_of_int m)"

text \<open>\<open>int(v)\<close> on a float truncates towards zero and raises on a NaN or an infinity.\<close>

fun float_to_int :: "double \<Rightarrow> int option" where
  "float_to_int (Finite x) = Some (if x \<ge> 0 then \<lfloor>x\<rfloor> else \<lceil>x\<rceil>)"
| "float_to_int NaN = None"
| "float_to_int NInf = None"
| "float_to_int PInf = None"

section \<open>Table detector (extractors/table.py)\<close>

text \<open>
  An image array is a list of rows of 8-bit pixels. OpenCV is an external library: its
  operations are the fields of a record, each returning either the exception it raised
  or its result. \<open>threshold_otsu_inv\<close> is \<open>cv2.threshold\<close> with
  \<open>THRESH_BINARY_INV + THRESH_OTSU\<close>; a structuring element \<open>MORPH_RECT\<close> of size
  \<open>(kw, kh)\<close> is the pair itself.
\<close>

type_synonym pixel = "8 word"
type_synonym mask = "pixel list list"

text \<open>
  A contour is a list of points and a rectangle is \<open>(x, y, w, h)\<close> in pixels.
  \<open>morphologyEx_open\<close> is \<open>cv2.morphologyEx\<close> with \<open>MORPH_OPEN\<close> and one iteration,
  \<open>findContours\<close> is called with \<open>RETR_EXTERNAL\<close> and \<open>CHAIN_APPROX_SIMPLE\<close>, and
  \<open>drawContours\<close> fills one contour with 255.
\<close>

type_synonym contour = "(int \<times> int) list"
type_synonym rect = "int \<times> int \<times> int \<times> int"

record cv2_lib =
  GaussianBlur :: "mask \<Rightarrow> nat \<times> nat \<Rightarrow> exn + mask"
  threshold_otsu_inv :: "mask \<Rightarrow> exn + mask"
  erode :: "mask \<Rightarrow> nat \<times> nat \<Rightarrow> exn + mask"
  dilate :: "mask \<Rightarrow> nat \<times> nat \<Rightarrow> exn + mask"
  morphologyEx_open :: "mask \<Rightarrow> nat \<times> nat \<Rightarrow> exn + mask"
  findContours :: "mask \<Rightarrow> exn + contour list"
  boundingRect :: "contour \<Rightarrow> rect"
  drawContours :: "mask \<Rightarrow> contour \<Rightarrow> exn + mask"

record TableDetectResult =
  detected :: bool
  grid_detected :: bool
  "method" :: string
  line_pixel_ratio :: real
  intersections_count :: int
  x_lines :: "int list"
  y_lines :: "int list"

text \<open>\<open>bw.shape[:2]\<close>: the number of rows and the number of columns.\<close>

definition nrows :: "mask \<Rightarrow> nat" where
  "nrows m = length m"

definition ncols :: "mask \<Rightarrow> nat" where
  "ncols m = (case m of [] \<Rightarrow> 0 | r # _ \<Rightarrow> length r)"

definition threshold_binary :: "cv2_lib \<Rightarrow> mask \<Rightarrow> exn + mask" where
  "threshold_binary cv2 gray =
     (case GaussianBlur cv2 gray (3, 3) of
        Inl e \<Rightarrow> Inl e
      | Inr blur \<Rightarrow> threshold_otsu_inv cv2 blur)"

datatype axis = AxisH | AxisV

definition extract_lines :: "cv2_lib \<Rightarrow> mask \<Rightarrow> axis \<Rightarrow> exn + mask" where
  "extract_lines cv2 bw ax =
     (let h = nrows bw; w = ncols bw; min_kernel = 10;
          kernel = (case ax of
                      AxisH \<Rightarrow> (max min_kernel (w div 30), 1)
                    | AxisV \<Rightarrow> (1, max min_kernel (h div 30)))
      in case erode cv2 bw kernel of
           Inl e \<Rightarrow> Inl e
         | Inr eroded \<Rightarrow> dilate cv2 eroded kernel)"

fun seg_loop :: "int \<Rightarrow> int \<Rightarrow> int list \<Rightarrow> int list" where
  "seg_loop start prev [] = [(start + prev) div 2]"
| "seg_loop start prev (i # rest) =
     (if i = prev + 1 then seg_loop start i rest
      else (start + prev) div 2 # seg_loop i i rest)"

fun segments_to_centers :: "int list \<Rightarrow> int list" where
  "segments_to_centers [] = []"
| "segments_to_centers (i # rest) = seg_loop i i rest"

text \<open>\<open>np.sum(mask > 0, axis=1)\<close> and \<open>np.sum(mask > 0, axis=0)\<close>.\<close>

definition proj_rows :: "mask \<Rightarrow> nat list" where
  "proj_rows m = map (\<lambda>row. length (filter (\<lambda>p. 0 < p) row)) m"

definition proj_cols :: "mask \<Rightarrow> nat list" where
  "proj_cols m = map (\<lambda>j. length (filter (\<lambda>row. 0 < row ! j) m)) [0..<ncols m]"

text \<open>\<open>np.where(proj >= threshold)[0]\<close>\<close>

definition np_where_ge :: "nat list \<Rightarrow> nat \<Rightarrow> int list" where
  "np_where_ge proj threshold = map int (filter (\<lambda>i. threshold \<le> proj ! i) [0..<length proj])"

definition line_positions_from_mask :: "mask \<Rightarrow> axis \<Rightarrow> int list" where
  "line_positions_from_mask m ax =
     (let h = nrows m; w = ncols m;
          proj = (case ax of AxisH \<Rightarrow> proj_rows m | AxisV \<Rightarrow> proj_cols m);
          threshold = (case ax of AxisH \<Rightarrow> max 10 (int_mul_0_35 w)
                                | AxisV \<Rightarrow> max 10 (int_mul_0_35 h));
          active = np_where_ge proj threshold
      in segments_to_centers active)"

text \<open>
  \<open>cv2.bitwise_or\<close> and \<open>cv2.bitwise_and\<close> work pixel by pixel and raise on arrays of
  different shapes.
\<close>

definition bitwise_or :: "mask \<Rightarrow> mask \<Rightarrow> exn + mask" where
  "bitwise_or a b =
     (if map length a = map length b then Inr (map2 (map2 (OR)) a b)
      else Inl (Exception ''size mismatch''))"

definition bitwise_and :: "mask \<Rightarrow> mask \<Rightarrow> exn + mask" where
  "bitwise_and a b =
     (if map length a = map length b then Inr (map2 (map2 (AND)) a b)
      else Inl (Exception ''size mismatch''))"

definition count_nonzero :: "mask \<Rightarrow> nat" where
  "count_nonzero m = sum_list (map (\<lambda>row. length (filter (\<lambda>p. p \<noteq> 0) row)) m)"

definition empty_table_result :: TableDetectResult where
  "empty_table_result =
     \<lparr>detected = False, grid_detected = False, method = ''grid_lines_v1'',
      line_pixel_ratio = 0, intersections_count = 0, x_lines = [], y_lines = []\<rparr>"

text \<open>
  The local \<open>line_ratio\<close> of \<open>detect_table\<close>: \<open>count_nonzero(combined) / max(1, h * w)\<close>.
\<close>

definition line_ratio :: "mask \<Rightarrow> mask \<Rightarrow> real" where
  "line_ratio bw combined =
     real (count_nonzero combined) / real (max 1 (nrows bw * ncols bw))"

text \<open>
  The body of the \<open>try\<close> block of \<open>detect_table\<close>. The second reading of the clock raises
  \<open>TimeoutError\<close>; the flags assigned before an exception are kept by the handlers.
\<close>

definition detect_table_body ::
  "cv2_lib \<Rightarrow> clock \<Rightarrow> mask \<Rightarrow> flags \<Rightarrow> (exn \<times> flags) + (TableDetectResult \<times> flags)" where
  "detect_table_body cv2 clk gray flags =
     (case threshold_binary cv2 gray of
        Inl e \<Rightarrow> Inl (e, flags)
      | Inr bw \<Rightarrow>
          if clk 1 then
            Inl (TimeoutError ''time budget exceeded'',
                 flags(''time_budget_exceeded'' \<mapsto> JBool True))
          else
            (case extract_lines cv2 bw AxisH of
               Inl e \<Rightarrow> Inl (e, flags)
             | Inr horizontal \<Rightarrow>
            (case extract_lines cv2 bw AxisV of
               Inl e \<Rightarrow> Inl (e, flags)
             | Inr vertical \<Rightarrow>
            (case bitwise_or horizontal vertical of
               Inl e \<Rightarrow> Inl (e, flags)
             | Inr combined \<Rightarrow>
            (case bitwise_and horizontal vertical of
               Inl e \<Rightarrow> Inl (e, flags)
             | Inr intersections \<Rightarrow>
                 (let lr = line_ratio bw combined;
                      ic = int (count_nonzero intersections);
                      xl = line_positions_from_mask vertical AxisV;
                      yl = line_positions_from_mask horizontal AxisH;
                      min_lines_ok = (length xl \<ge> 3 \<and> length yl \<ge> 3);
                      ratio_ok = (lr \<ge> 8 / 1000);
                      intersections_ok = (ic \<ge> 200);
                      det = (min_lines_ok \<and> (ratio_ok \<or> intersections_ok));
                      grid = min_lines_ok
                  in Inr (\<lparr>detected = det, grid_detected = grid, method = ''grid_lines_v1'',
                            line_pixel_ratio = clamp01 (lr * 10),
                            intersections_count = ic,
                            x_lines = xl, y_lines = yl\<rparr>,
                          flags(''table_detected'' \<mapsto> JBool det,
                                ''grid_detected'' \<mapsto> JBool grid))))))))"

text \<open>
  \<open>detect_table(image, deadline)\<close>. \<open>cv\<close> is the outcome of \<open>_safe_import_cv2\<close> (the
  library, or the text of the import error) and \<open>gray\<close> the 8-bit grayscale array of the
  image.
\<close>

definition detect_table ::
  "string + cv2_lib \<Rightarrow> clock \<Rightarrow> mask \<Rightarrow> TableDetectResult \<times> flags" where
  "detect_table cv clk gray =
     (let flags = [''table_detected'' \<mapsto> JBool False, ''grid_detected'' \<mapsto> JBool False]
      in if clk 0 then
           (empty_table_result, flags(''time_budget_exceeded'' \<mapsto> JBool True))
         else
           (case cv of
              Inl cv2_err \<Rightarrow>
                (empty_table_result,
                 flags(''opencv_missing'' \<mapsto> JBool True, ''opencv_error'' \<mapsto> JStr cv2_err))
            | Inr cv2 \<Rightarrow>
                (case detect_table_body cv2 clk gray flags of
                   Inr res \<Rightarrow> res
                 | Inl (TimeoutError _, fl) \<Rightarrow> (empty_table_result, fl)
                 | Inl (Exception msg, fl) \<Rightarrow>
                     (empty_table_result,
                      fl(''extraction_error'' \<mapsto> JBool True,
                         ''extraction_error_detail'' \<mapsto> JStr msg)))))"

subsection \<open>Notions used to state the properties of the detector\<close>

text \<open>
  A maximal run of consecutive indices of a set, and the midpoint of such a run.
\<close>

definition maximal_run :: "int set \<Rightarrow> int \<Rightarrow> int \<Rightarrow> bool" where
  "maximal_run A s e \<longleftrightarrow>
     s \<le> e \<and> (\<forall>i. s \<le> i \<and> i \<le> e \<longrightarrow> i \<in> A) \<and> s - 1 \<notin> A \<and> e + 1 \<notin> A"

definition run_midpoint :: "int set \<Rightarrow> int \<Rightarrow> bool" where
  "run_midpoint A c \<longleftrightarrow> (\<exists>s e. maximal_run A s e \<and> c = (s + e) div 2)"

text \<open>
  The active projection indices of a line mask: the rows (columns) whose number of
  foreground pixels reaches the threshold.
\<close>

definition active_positions :: "mask \<Rightarrow> axis \<Rightarrow> int set" where
  "active_positions m ax =
     (case ax of
        AxisH \<Rightarrow> {y. 0 \<le> y \<and> nat y < nrows m \<and>
                      max 10 (int_mul_0_35 (ncols m)) \<le> proj_rows m ! nat y}
      | AxisV \<Rightarrow> {x. 0 \<le> x \<and> nat x < ncols m \<and>
                      max 10 (int_mul_0_35 (nrows m)) \<le> proj_cols m ! nat x})"

text \<open>An OpenCV operation returns an array of the shape of its argument.\<close>

definition keeps_shape :: "(mask \<Rightarrow> exn + mask) \<Rightarrow> bool" where
  "keeps_shape f \<longleftrightarrow> (\<forall>m r. f m = Inr r \<longrightarrow> map length r = map length m)"

definition cv2_keeps_shape :: "cv2_lib \<Rightarrow> bool" where
  "cv2_keeps_shape cv2 \<longleftrightarrow>
     (\<forall>k. keeps_shape (\<lambda>m. GaussianBlur cv2 m k)) \<and>
     keeps_shape (threshold_otsu_inv cv2) \<and>
     (\<forall>k. keeps_shape (\<lambda>m. erode cv2 m k)) \<and>
     (\<forall>k. keeps_shape (\<lambda>m. dilate cv2 m k)) \<and>
     (\<forall>k. keeps_shape (\<lambda>m. morphologyEx_open cv2 m k)) \<and>
     (\<forall>c. keeps_shape (\<lambda>m. drawContours cv2 m c))"

subsection \<open>A ruled grid of three by three lines on a 10 by 10 image\<close>

text \<open>
  The fixture used to evaluate the detector: the binary image \<open>ex_bw\<close> has full lines at
  rows and columns 1, 4 and 7. \<open>ex_cv2\<close> stands for OpenCV on images that the line kernels
  span: opening by a horizontal kernel keeps the rows that are entirely foreground,
  opening by a vertical kernel the columns that are.
\<close>

definition ex_lines :: "nat list" where
  "ex_lines = [1, 4, 7]"

definition ex_bw :: mask where
  "ex_bw = map (\<lambda>y. map (\<lambda>x. if y \<in> set ex_lines \<or> x \<in> set ex_lines then 255 else 0) [0..<10]) [0..<10]"

definition ex_gray :: mask where
  "ex_gray = map (map (\<lambda>p. 255 - p)) ex_bw"

definition open_rows :: "mask \<Rightarrow> mask" where
  "open_rows m = map (\<lambda>row. if \<forall>p\<in>set row. p \<noteq> 0 then row else map (\<lambda>_. 0) row) m"

definition open_cols :: "mask \<Rightarrow> mask" where
  "open_cols m = map (\<lambda>row. map (\<lambda>(x, p). if \<forall>r\<in>set m. r ! x \<noteq> 0 then p else 0) (zip [0..<length row] row)) m"

definition ex_cv2 :: cv2_lib where
  "ex_cv2 = \<lparr>GaussianBlur = (\<lambda>m k. Inr m),
             threshold_otsu_inv = (\<lambda>m. Inr (map (map (\<lambda>p. if p < 128 then 255 else 0)) m)),
             erode = (\<lambda>m k. Inr (if snd k = 1 then open_rows m else open_cols m)),
             dilate = (\<lambda>m k. Inr m),
             morphologyEx_open = (\<lambda>m k. Inr m),
             findContours = (\<lambda>m. Inr []),
             boundingRect = (\<lambda>c. (0, 0, 0, 0)),
             drawContours = (\<lambda>m c. Inr m)\<rparr>"

definition ex_cross :: mask where
  "ex_cross = map (\<lambda>y. map (\<lambda>x. if y \<in> set ex_lines \<and> x \<in> set ex_lines then 255 else 0) [0..<10]) [0..<10]"

definition never_expired :: clock where
  "never_expired = (\<lambda>_. False)"

text \<open>
  \<open>detect_table\<close> completes without deadline expiry or error: \<open>bw\<close> is the binary
  image, \<open>hm\<close> and \<open>vm\<close> the two line masks, \<open>combined\<close> and \<open>isect\<close> their union
  and intersection.
\<close>

definition table_run ::
  "string + cv2_lib \<Rightarrow> clock \<Rightarrow> mask \<Rightarrow> mask \<Rightarrow> mask \<Rightarrow> mask \<Rightarrow> mask \<Rightarrow> mask \<Rightarrow> bool" where
  "table_run cv clk gray bw hm vm combined isect \<longleftrightarrow>
     \<not> clk 0 \<and> \<not> clk 1 \<and>
     (\<exists>cv2. cv = Inr cv2 \<and> threshold_binary cv2 gray = Inr bw \<and>
            extract_lines cv2 bw AxisH = Inr hm \<and> extract_lines cv2 bw AxisV = Inr vm) \<and>
     bitwise_or hm vm = Inr combined \<and> bitwise_and hm vm = Inr isect"

section \<open>Table extractor (extractors/table.py)\<close>

text \<open>
  The models of \<open>models.py\<close> that the extractors read. The fields of a bounding box are
  doubles that the model constrains to [0, 1], given as the real numbers they denote.
\<close>

record BBox =
  bbox_x :: real
  bbox_y :: real
  bbox_w :: real
  bbox_h :: real

record OcrBlock =
  block_text :: string
  block_bbox :: BBox
  block_confidence :: "real option"

text \<open>The \<open>table\<close> object of the structured JSON; \<open>notes\<close> is an optional key.\<close>

record table_json =
  table_rows :: "string list list"
  table_confidence :: real
  table_method :: string
  table_notes :: "string option"

text \<open>A crop box \<open>(left, top, right, bottom)\<close>; the image is known by its img_size.\<close>

type_synonym box = "int \<times> int \<times> int \<times> int"

text \<open>
  A cell OCR function applied to a crop of the image: the exception it raised, or the
  text and the flags it returned.
\<close>

type_synonym cell_ocr = "box \<Rightarrow> exn + (string \<times> flags)"

text \<open>The truth value Python gives to \<open>flags.get(key)\<close>.\<close>

fun truthy :: "jv option \<Rightarrow> bool" where
  "truthy None = False"
| "truthy (Some (JBool b)) = b"
| "truthy (Some (JStr s)) = (s \<noteq> [])"
| "truthy (Some (JInt i)) = (i \<noteq> 0)"
| "truthy (Some JNull) = False"

definition crop_cell :: "int \<times> int \<Rightarrow> int \<Rightarrow> int \<Rightarrow> int \<Rightarrow> int \<Rightarrow> box" where
  "crop_cell img_size x_left y_top x_right y_bottom =
     (let w = fst img_size; h = snd img_size;
          l = max 0 (min w x_left);
          t = max 0 (min h y_top);
          r = max 0 (min w x_right);
          b = max 0 (min h y_bottom)
      in if r \<le> l + 1 \<or> b \<le> t + 1 then (0, 0, 1, 1) else (l, t, r, b))"

text \<open>
  \<open>np.linspace(0, n - 1, cap).astype(int)\<close> for \<open>cap \<ge> 2\<close>: the entry \<open>i\<close> is the
  truncation of \<open>i * ((n - 1) / (cap - 1))\<close> and the last entry is \<open>n - 1\<close>. The caps in use
  are 60 and 80, so the divisors are the primes 59 and 79: the exact quotient
  \<open>i * (n - 1) / (cap - 1)\<close> with \<open>i < cap - 1\<close> is an integer only if the step is one, and
  is otherwise at least \<open>1 / 79\<close> away from the next integer, so the truncation of the
  double product is the integer quotient below.
\<close>

definition linspace_int :: "nat \<Rightarrow> nat \<Rightarrow> nat list" where
  "linspace_int n cap =
     map (\<lambda>i. if i = cap - 1 then n - 1 else (i * (n - 1)) div (cap - 1)) [0..<cap]"

definition cap_lines :: "int list \<Rightarrow> nat \<Rightarrow> int list" where
  "cap_lines lines cap =
     (let xs = sort (remdups lines)
      in if length xs \<le> cap then xs
         else map (\<lambda>i. xs ! i) (linspace_int (length xs) cap))"

text \<open>
  The loops of the grid-slice path. The state is the number of clock readings made so
  far, the cells or rows produced, the cell flags and the flags. A \<open>break\<close> returns the
  state; an exception of the cell OCR leaves the loops with the flags as they stand.
\<close>

fun cells_loop ::
  "clock \<Rightarrow> cell_ocr \<Rightarrow> int \<times> int \<Rightarrow> int list \<Rightarrow> int \<Rightarrow> int \<Rightarrow> nat list \<Rightarrow>
   nat \<times> string list \<times> flags \<times> flags \<Rightarrow>
   (exn \<times> flags) + (nat \<times> string list \<times> flags \<times> flags)" where
  "cells_loop clk ocr img_size xl y_top y_bottom [] st = Inr st"
| "cells_loop clk ocr img_size xl y_top y_bottom (ci # c_rest) (k, row_cells, cell_flags, flags) =
     (if clk k then
        Inr (Suc k, row_cells, cell_flags, flags(''time_budget_exceeded'' \<mapsto> JBool True))
      else
        (let pad = 2;
             x_left = xl ! ci;
             x_right = xl ! (ci + 1);
             cell_img = crop_cell img_size (x_left + pad) (y_top + pad) (x_right - pad) (y_bottom - pad)
         in case ocr cell_img of
              Inl e \<Rightarrow> Inl (e, flags)
            | Inr (txt, f) \<Rightarrow>
                cells_loop clk ocr img_size xl y_top y_bottom c_rest
                  (Suc k, row_cells @ [if txt \<noteq> [] then txt else []], cell_flags ++ f, flags)))"

fun rows_loop ::
  "clock \<Rightarrow> cell_ocr \<Rightarrow> int \<times> int \<Rightarrow> int list \<Rightarrow> int list \<Rightarrow> nat \<Rightarrow> nat list \<Rightarrow>
   nat \<times> string list list \<times> flags \<times> flags \<Rightarrow>
   (exn \<times> flags) + (nat \<times> string list list \<times> flags \<times> flags)" where
  "rows_loop clk ocr img_size xl yl max_cols [] st = Inr st"
| "rows_loop clk ocr img_size xl yl max_cols (ri # r_rest) (k, rows_out, cell_flags, flags) =
     (if clk k then
        Inr (Suc k, rows_out, cell_flags, flags(''time_budget_exceeded'' \<mapsto> JBool True))
      else
        (let y_top = yl ! ri;
             y_bottom = yl ! (ri + 1)
         in case cells_loop clk ocr img_size xl y_top y_bottom [0..<max_cols]
                   (Suc k, [], cell_flags, flags) of
              Inl e \<Rightarrow> Inl e
            | Inr (k', row_cells, cell_flags', flags') \<Rightarrow>
                rows_loop clk ocr img_size xl yl max_cols r_rest
                  (k', rows_out @ [row_cells], cell_flags', flags')))"

text \<open>
  \<open>_cluster_blocks_to_grid\<close>, the fallback. \<open>int(v)\<close> truncates towards zero;
  \<open>int((a + b) / 2)\<close> on integers is \<open>trunc_half (a + b)\<close>. The centre of a block in
  pixels is \<open>(x + w / 2) * img_w\<close> in doubles, each operation rounded: with the fields in
  [0, 1] and the width of an image nothing overflows.
\<close>

definition py_int :: "real \<Rightarrow> int" where
  "py_int v = (if v \<ge> 0 then \<lfloor>v\<rfloor> else \<lceil>v\<rceil>)"

definition block_center :: "real \<Rightarrow> real \<Rightarrow> int \<Rightarrow> real" where
  "block_center x w img_w = rnd (rnd (x + rnd (w / 2)) * rnd (real_of_int img_w))"

definition trunc_half :: "int \<Rightarrow> int" where
  "trunc_half a = (if a \<ge> 0 then a div 2 else - ((- a) div 2))"

text \<open>
  \<open>str.strip()\<close>: the characters are the code points below 256, and the white space of
  Python among them is U+0009 to U+000D, U+001C to U+0020, U+0085 and U+00A0.
\<close>

definition is_space :: "char \<Rightarrow> bool" where
  "is_space c \<longleftrightarrow>
     c \<in> set [CHR '' '', CHR 0x09, CHR 0x0A, CHR 0x0B, CHR 0x0C, CHR 0x0D,
              CHR 0x1C, CHR 0x1D, CHR 0x1E, CHR 0x1F, CHR 0x85, CHR 0xA0]"

definition strip :: "string \<Rightarrow> string" where
  "strip s = rev (dropWhile is_space (rev (dropWhile is_space s)))"

text \<open>\<open>" ".join(ws)\<close>\<close>

fun join_space :: "string list \<Rightarrow> string" where
  "join_space [] = []"
| "join_space [w] = w"
| "join_space (w # ws) = w @ '' '' @ join_space ws"

text \<open>The row grouping loop: \<open>cur_y\<close> is \<open>None\<close> before the first item.\<close>

fun group_rows ::
  "int \<Rightarrow> (int \<times> int \<times> string) list \<Rightarrow> (int \<times> string) list list \<Rightarrow> (int \<times> string) list \<Rightarrow>
   int option \<Rightarrow> (int \<times> string) list list" where
  "group_rows y_tol [] rows cur cur_y =
     (if cur \<noteq> [] then rows @ [sort_key fst cur] else rows)"
| "group_rows y_tol ((x, y, t) # items) rows cur None =
     group_rows y_tol items rows [(x, t)] (Some y)"
| "group_rows y_tol ((x, y, t) # items) rows cur (Some cy) =
     (if \<bar>y - cy\<bar> \<le> y_tol then
        group_rows y_tol items rows (cur @ [(x, t)]) (Some (trunc_half (cy + y)))
      else
        group_rows y_tol items (rows @ [sort_key fst cur]) [(x, t)] (Some y))"

text \<open>The column centres: \<open>centers\<close> is never empty inside the loop.\<close>

fun column_centers :: "int \<Rightarrow> int list \<Rightarrow> int list \<Rightarrow> int list" where
  "column_centers x_gap centers [] = centers"
| "column_centers x_gap centers (x # xs) =
     (if \<bar>x - last centers\<bar> > x_gap then column_centers x_gap (centers @ [x]) xs
      else column_centers x_gap (butlast centers @ [trunc_half (last centers + x)]) xs)"

text \<open>\<open>np.argmin\<close>: the first index of a least element.\<close>

fun argmin_from :: "nat \<Rightarrow> nat \<Rightarrow> 'a::linorder \<Rightarrow> 'a list \<Rightarrow> nat" where
  "argmin_from i best bv [] = best"
| "argmin_from i best bv (v # vs) =
     (if v < bv then argmin_from (Suc i) i v vs else argmin_from (Suc i) best bv vs)"

definition argmin :: "'a::linorder list \<Rightarrow> nat" where
  "argmin vs = (case vs of [] \<Rightarrow> 0 | v # rest \<Rightarrow> argmin_from 1 0 v rest)"

fun place_words :: "int list \<Rightarrow> (int \<times> string) list \<Rightarrow> string list list \<Rightarrow> string list list" where
  "place_words centers [] cell_words = cell_words"
| "place_words centers ((x, t) # r) cell_words =
     (let j = argmin (map (\<lambda>c. \<bar>x - c\<bar>) centers)
      in place_words centers r (cell_words[j := cell_words ! j @ [t]]))"

text \<open>\<open>int(n * 0.02)\<close> and \<open>int(n * 0.04)\<close>\<close>

definition int_mul_0_02 :: "nat \<Rightarrow> nat" where
  "int_mul_0_02 n = py_int_mul n 5764607523034235 58"

definition int_mul_0_04 :: "nat \<Rightarrow> nat" where
  "int_mul_0_04 n = py_int_mul n 5764607523034235 57"

definition cluster_blocks_to_grid ::
  "OcrBlock list \<Rightarrow> int \<Rightarrow> int \<Rightarrow> string list list \<times> nat \<times> nat" where
  "cluster_blocks_to_grid blocks img_w img_h =
     (if blocks = [] \<or> img_w \<le> 0 \<or> img_h \<le> 0 then ([], 0, 0)
      else
        (let items = map (\<lambda>b.
                       (py_int (block_center (bbox_x (block_bbox b)) (bbox_w (block_bbox b)) img_w),
                        py_int (block_center (bbox_y (block_bbox b)) (bbox_h (block_bbox b)) img_h),
                        strip (block_text b)))
                     (filter (\<lambda>b. block_text b \<noteq> []) blocks)
         in if items = [] then ([], 0, 0)
            else
              (let sorted_items = sort_key (\<lambda>t. (fst (snd t), fst t)) items;
                   y_tol = max 8 (int (int_mul_0_02 (nat img_h)));
                   rows = group_rows y_tol sorted_items [] [] None;
                   xs = sort (concat (map (map fst) rows))
               in if xs = [] then ([], 0, 0)
                  else
                    (let x_gap = max 12 (int (int_mul_0_04 (nat img_w)));
                         centers = column_centers x_gap [hd xs] (tl xs);
                         col_count = length centers;
                         grid = map (\<lambda>r. map (\<lambda>ws. strip (join_space ws))
                                                (place_words centers r (replicate col_count [])))
                                    rows
                     in (grid, length grid, col_count)))))"

text \<open>
  \<open>extract_table(image, detect, ocr_blocks, deadline, ocr_fn)\<close>. \<open>img_size\<close> is \<open>image.img_size\<close>,
  \<open>ocr\<close> the cell OCR on a crop of the image and \<open>elapsed_ms\<close> the reading that the
  \<open>finally\<close> clause stores.
\<close>

definition extract_table_handler :: "table_json \<Rightarrow> exn \<times> flags \<Rightarrow> table_json \<times> flags" where
  "extract_table_handler table ef =
     (let msg = (case fst ef of TimeoutError m \<Rightarrow> m | Exception m \<Rightarrow> m)
      in (table\<lparr>table_method := ''ocr_cluster_v1'',
                table_notes := Some ''extraction_error'',
                table_confidence := 0\<rparr>,
          (snd ef)(''extraction_error'' \<mapsto> JBool True,
                   ''extraction_error_detail'' \<mapsto> JStr msg)))"

definition extract_table_try ::
  "int \<times> int \<Rightarrow> TableDetectResult \<Rightarrow> OcrBlock list option \<Rightarrow> clock \<Rightarrow> cell_ocr \<Rightarrow>
   table_json \<times> flags" where
  "extract_table_try img_size detect ocr_blocks clk ocr =
     (let flags = [''table_detected'' \<mapsto> JBool (detected detect),
                   ''grid_detected'' \<mapsto> JBool (grid_detected detect),
                   ''used_fallback_clustering'' \<mapsto> JBool False];
          table = \<lparr>table_rows = [], table_confidence = 0,
                   table_method = ''grid_lines_v1'', table_notes = None\<rparr>;
          img_w = fst img_size; img_h = snd img_size
      in if clk 0 then
           (table\<lparr>table_notes := Some ''time_budget_exceeded''\<rparr>,
            flags(''time_budget_exceeded'' \<mapsto> JBool True))
         else
           (let xl = cap_lines (x_lines detect) 60;
                yl = cap_lines (y_lines detect) 80
            in if grid_detected detect \<and> length xl \<ge> 3 \<and> length yl \<ge> 3 then
                 (let max_rows = min (length yl - 1) 40;
                      max_cols = min (length xl - 1) 20
                  in case rows_loop clk ocr img_size xl yl max_cols [0..<max_rows]
                            (1, [], Map.empty, flags) of
                       Inl ef \<Rightarrow> extract_table_handler table ef
                     | Inr (k, rows_out, cell_flags, flags1) \<Rightarrow>
                         (let flags2 = flags1 ++ cell_flags;
                              grid_strength =
                                clamp01 (min 1 (real_of_int (intersections_count detect) / 4000));
                              exceeded = truthy (flags2 ''time_budget_exceeded'');
                              base = (if exceeded then 45 / 100 else 65 / 100)
                          in (\<lparr>table_rows = rows_out,
                               table_confidence = clamp01 (base + 25 / 100 * grid_strength),
                               table_method = ''grid_lines_v1'',
                               table_notes =
                                 (if exceeded then Some ''time_budget_exceeded'' else None)\<rparr>,
                              flags2)))
               else
                 (let flags1 = flags(''used_fallback_clustering'' \<mapsto> JBool True);
                      table1 = table\<lparr>table_method := ''ocr_cluster_v1''\<rparr>
                  in if clk 1 then
                       (table1\<lparr>table_notes := Some ''time_budget_exceeded''\<rparr>,
                        flags1(''time_budget_exceeded'' \<mapsto> JBool True))
                     else
                       (case cluster_blocks_to_grid
                               (case ocr_blocks of None \<Rightarrow> [] | Some bs \<Rightarrow> bs) img_w img_h of
                          (grid, r, c) \<Rightarrow>
                            (table1\<lparr>table_rows := grid,
                                    table_confidence :=
                                      (if r > 0 \<and> c > 0 then 35 / 100 else 15 / 100),
                                    table_notes :=
                                      (if grid = [] then Some ''no_ocr_blocks_for_clustering''
                                       else None)\<rparr>,
                             flags1)))))"

definition extract_table ::
  "int \<times> int \<Rightarrow> TableDetectResult \<Rightarrow> OcrBlock list option \<Rightarrow> clock \<Rightarrow> cell_ocr \<Rightarrow> int \<Rightarrow>
   table_json \<times> flags" where
  "extract_table img_size detect ocr_blocks clk ocr elapsed_ms =
     (case extract_table_try img_size detect ocr_blocks clk ocr of
        (table, flags) \<Rightarrow> (table, flags(''table_elapsed_ms'' \<mapsto> JInt elapsed_ms)))"

text \<open>The readings of a monotonic clock against a fixed deadline.\<close>

definition mono_clock :: "clock \<Rightarrow> bool" where
  "mono_clock clk \<longleftrightarrow> (\<forall>j k. j \<le> k \<longrightarrow> clk j \<longrightarrow> clk k)"

text \<open>
  \<open>extract_table\<close> takes the grid-slice path: the deadline has not expired on entry, the
  grid was detected and both capped line lists have at least three entries.
\<close>

definition grid_slice_path :: "TableDetectResult \<Rightarrow> clock \<Rightarrow> bool" where
  "grid_slice_path detect clk \<longleftrightarrow>
     \<not> clk 0 \<and> grid_detected detect \<and>
     length (cap_lines (x_lines detect) 60) \<ge> 3 \<and>
     length (cap_lines (y_lines detect) 80) \<ge> 3"

text \<open>The rows of a table have equal lengths.\<close>

definition equal_length_rows :: "string list list \<Rightarrow> bool" where
  "equal_length_rows rows \<longleftrightarrow> (\<forall>r1\<in>set rows. \<forall>r2\<in>set rows. length r1 = length r2)"

text \<open>
  A grid of three by three lines, a cell OCR that reads \<open>X\<close> everywhere, and a deadline that
  expires at the seventh reading of the clock (before the last cell of the second row).
\<close>

definition ex_grid_detect :: TableDetectResult where
  "ex_grid_detect =
     \<lparr>detected = True, grid_detected = True, method = ''grid_lines_v1'',
      line_pixel_ratio = 1, intersections_count = 9,
      x_lines = [0, 10, 20], y_lines = [0, 10, 20]\<rparr>"

definition ocr_X :: cell_ocr where
  "ocr_X = (\<lambda>b. Inr (''X'', Map.empty))"

definition expires_at_6 :: clock where
  "expires_at_6 = (\<lambda>k. 6 \<le> k)"

section \<open>Bar-chart detector (extractors/chart_bar.py)\<close>

record BarChartDetectResult =
  bar_detected :: bool
  bar_count :: int
  bars :: "rect list"
  baseline_y :: int
  score :: real

text \<open>
  The field \<open>bar_detected\<close> is the field \<open>detected\<close> of the source. The products
  \<open>int(n * c)\<close> of the detector and the extractor:
\<close>

definition int_mul_0_00008 :: "nat \<Rightarrow> nat" where
  "int_mul_0_00008 n = py_int_mul n 5902958103587057 66"

definition int_mul_0_06 :: "nat \<Rightarrow> nat" where
  "int_mul_0_06 n = py_int_mul n 8646911284551352 57"

definition int_mul_0_008 :: "nat \<Rightarrow> nat" where
  "int_mul_0_008 n = py_int_mul n 4611686018427388 59"

definition int_mul_0_6 :: "nat \<Rightarrow> nat" where
  "int_mul_0_6 n = py_int_mul n 5404319552844595 53"

definition int_mul_0_9 :: "nat \<Rightarrow> nat" where
  "int_mul_0_9 n = py_int_mul n 8106479329266893 53"

definition int_mul_0_03 :: "nat \<Rightarrow> nat" where
  "int_mul_0_03 n = py_int_mul n 8646911284551352 58"

definition int_mul_0_22 :: "nat \<Rightarrow> nat" where
  "int_mul_0_22 n = py_int_mul n 7926335344172073 55"

definition int_mul_0_05 :: "nat \<Rightarrow> nat" where
  "int_mul_0_05 n = py_int_mul n 7205759403792794 57"

text \<open>\<open>np.zeros_like\<close> and \<open>cv2.subtract\<close> (saturating, raising on different shapes).\<close>

definition zeros_like :: "mask \<Rightarrow> mask" where
  "zeros_like m = map (map (\<lambda>_. 0)) m"

definition cv2_subtract :: "mask \<Rightarrow> mask \<Rightarrow> exn + mask" where
  "cv2_subtract a b =
     (if map length a = map length b
      then Inr (map2 (map2 (\<lambda>p q. if q \<le> p then p - q else 0)) a b)
      else Inl (Exception ''size mismatch''))"

text \<open>
  The loop that draws the kept components into a mask and counts them; \<open>keep\<close> is the
  test on the bounding rectangle.
\<close>

fun draw_kept ::
  "cv2_lib \<Rightarrow> (rect \<Rightarrow> bool) \<Rightarrow> contour list \<Rightarrow> mask \<times> nat \<Rightarrow> exn + (mask \<times> nat)" where
  "draw_kept cv2 keep [] st = Inr st"
| "draw_kept cv2 keep (c # cs) (m, kept) =
     (if keep (boundingRect cv2 c) then
        (case drawContours cv2 m c of
           Inl e \<Rightarrow> Inl e
         | Inr m' \<Rightarrow> draw_kept cv2 keep cs (m', kept + 1))
      else draw_kept cv2 keep cs (m, kept))"

definition thin_lines_mask ::
  "cv2_lib \<Rightarrow> mask \<Rightarrow> nat \<times> nat \<Rightarrow> (rect \<Rightarrow> bool) \<Rightarrow> exn + (mask \<times> nat)" where
  "thin_lines_mask cv2 bw ksz keep =
     (case morphologyEx_open cv2 bw ksz of
        Inl e \<Rightarrow> Inl e
      | Inr opened \<Rightarrow>
          (case findContours cv2 opened of
             Inl e \<Rightarrow> Inl e
           | Inr contours \<Rightarrow> draw_kept cv2 keep contours (zeros_like bw, 0)))"

definition exn_text :: "exn \<Rightarrow> string" where
  "exn_text e = (case e of TimeoutError m \<Rightarrow> m | Exception m \<Rightarrow> m)"

definition subtract_thin_axis_lines ::
  "cv2_lib \<Rightarrow> mask \<Rightarrow> nat \<Rightarrow> nat \<Rightarrow> mask \<times> flags" where
  "subtract_thin_axis_lines cv2 bw img_w img_h =
     (let kx = max 35 (img_w div 14);
          min_line_w = int (int_mul_0_35 img_w);
          max_line_h = max 6 (int (int_mul_0_03 img_h));
          ky = max 45 (img_h div 10);
          min_line_h = int (int_mul_0_35 img_h);
          max_line_w = max 6 (int (int_mul_0_02 img_w));
          failed = (\<lambda>e. (bw, [''axis_line_subtract_failed'' \<mapsto> JBool True,
                             ''axis_line_subtract_error'' \<mapsto> JStr (exn_text e)]))
      in case thin_lines_mask cv2 bw (kx, 1)
                (\<lambda>(x, y, w, h). w \<ge> min_line_w \<and> h \<le> max_line_h) of
           Inl e \<Rightarrow> failed e
         | Inr (h_mask, kept_h) \<Rightarrow>
        (case thin_lines_mask cv2 bw (1, ky)
                (\<lambda>(x, y, w, h). h \<ge> min_line_h \<and> w \<le> max_line_w) of
           Inl e \<Rightarrow> failed e
         | Inr (v_mask, kept_v) \<Rightarrow>
        (case bitwise_or h_mask v_mask of
           Inl e \<Rightarrow> failed e
         | Inr line_mask \<Rightarrow>
        (case cv2_subtract bw line_mask of
           Inl e \<Rightarrow> failed e
         | Inr cleaned \<Rightarrow>
             (cleaned, [''axis_line_components_removed'' \<mapsto> JInt (int (kept_h + kept_v))])))))"

text \<open>
  \<open>_filter_bar_candidates\<close>. The aspect test \<open>h / max(1, w) < 0.55\<close> is a comparison of
  real numbers here.
\<close>

definition filter_bar_candidates :: "rect list \<Rightarrow> nat \<Rightarrow> nat \<Rightarrow> rect list" where
  "filter_bar_candidates rects img_w img_h =
     (let min_area = max 80 (int (int_mul_0_00008 (img_w * img_h)));
          min_h = max 18 (int (int_mul_0_06 img_h));
          min_w = max 5 (int (int_mul_0_008 img_w))
      in filter (\<lambda>(x, y, w, h).
           \<not> (w \<le> 0 \<or> h \<le> 0) \<and>
           \<not> (w * h < min_area) \<and>
           \<not> (real_of_int h / real_of_int (max 1 w) < 55 / 100) \<and>
           \<not> (h < min_h) \<and>
           \<not> (w < min_w) \<and>
           \<not> (w > int (int_mul_0_6 img_w) \<or> h > int (int_mul_0_9 img_h))) rects)"

text \<open>
  \<open>_cluster_by_x\<close>. The x centre \<open>r[0] + r[2] / 2\<close> and the running mean of the centres
  are real numbers; \<open>max(c, key=area)\<close> is the first rectangle of largest area.
\<close>

definition x_center :: "rect \<Rightarrow> real" where
  "x_center r = (case r of (x, y, w, h) \<Rightarrow> real_of_int x + real_of_int w / 2)"

definition rect_area :: "rect \<Rightarrow> int" where
  "rect_area r = (case r of (x, y, w, h) \<Rightarrow> w * h)"

fun max_by_from :: "('a \<Rightarrow> int) \<Rightarrow> 'a \<Rightarrow> 'a list \<Rightarrow> 'a" where
  "max_by_from f best [] = best"
| "max_by_from f best (r # rs) =
     (if f r > f best then max_by_from f r rs else max_by_from f best rs)"

fun cluster_loop :: "real \<Rightarrow> rect list \<Rightarrow> rect list list \<Rightarrow> rect list \<Rightarrow> real \<Rightarrow> rect list list" where
  "cluster_loop merge_px [] clusters cur cur_cx = clusters @ [cur]"
| "cluster_loop merge_px (r # rs) clusters cur cur_cx =
     (let cx = x_center r
      in if \<bar>cx - cur_cx\<bar> \<le> merge_px then
           cluster_loop merge_px rs clusters (cur @ [r])
             (sum_list (map x_center (cur @ [r])) / real (length (cur @ [r])))
         else cluster_loop merge_px rs (clusters @ [cur]) [r] cx)"

definition cluster_by_x :: "rect list \<Rightarrow> int \<Rightarrow> rect list" where
  "cluster_by_x rects merge_px =
     (case sort_key x_center rects of
        [] \<Rightarrow> []
      | r0 # rs \<Rightarrow>
          map (\<lambda>c. max_by_from rect_area (hd c) (tl c))
              (cluster_loop (real_of_int merge_px) rs [] [r0] (x_center r0)))"

text \<open>\<open>np.median\<close>, \<open>np.mean\<close> and \<open>np.std\<close> over real numbers.\<close>

definition np_median :: "real list \<Rightarrow> real" where
  "np_median xs =
     (let s = sort xs; n = length s
      in if odd n then s ! (n div 2) else (s ! (n div 2 - 1) + s ! (n div 2)) / 2)"

definition np_mean :: "real list \<Rightarrow> real" where
  "np_mean xs = sum_list xs / real (length xs)"

definition np_std :: "real list \<Rightarrow> real" where
  "np_std xs = sqrt (sum_list (map (\<lambda>x. (x - np_mean xs) ^ 2) xs) / real (length xs))"

definition empty_bar_result :: BarChartDetectResult where
  "empty_bar_result =
     \<lparr>bar_detected = False, bar_count = 0, bars = [], baseline_y = 0, score = 0\<rparr>"

text \<open>
  The decision of \<open>detect_bar_chart\<close> on the clustered bars (at least three of them)
  and the flags it extends.
\<close>

definition classify_bars ::
  "rect list \<Rightarrow> nat \<Rightarrow> flags \<Rightarrow> BarChartDetectResult \<times> flags" where
  "classify_bars bs img_h flags =
     (let bottoms = map (\<lambda>(x, y, w, h). real_of_int (y + h)) bs;
          baseline = py_int (np_median bottoms);
          baseline_std = np_std bottoms;
          widths = map (\<lambda>(x, y, w, h). real_of_int w) bs;
          width_mean = np_mean widths;
          width_cv = np_std widths / max (1 / 10 ^ 6) width_mean;
          baseline_tol = max 6 (real img_h * (15 / 1000));
          aligned = length (filter (\<lambda>b. \<bar>b - real_of_int baseline\<bar> \<le> baseline_tol) bottoms);
          aligned_ratio = real aligned / real (max 1 (length bs));
          det = (aligned_ratio \<ge> 7 / 10 \<and> width_cv \<le> 4 / 10)
      in if \<not> det then
           (\<lparr>bar_detected = False, bar_count = int (length bs), bars = bs,
             baseline_y = baseline, score = 0\<rparr>, flags)
         else
           (let bar_count_score = clamp01 ((real (length bs) - 2) / 6);
                width_score = clamp01 (1 - width_cv);
                baseline_score = clamp01 (1 - baseline_std / max 1 (baseline_tol * 2));
                sc = clamp01 (15 / 100 + 45 / 100 * bar_count_score
                              + 25 / 100 * width_score + 15 / 100 * baseline_score)
            in (\<lparr>bar_detected = True, bar_count = int (length bs),
                  bars = sort_key fst bs, baseline_y = baseline, score = sc\<rparr>,
                flags(''chart_detected'' \<mapsto> JBool True, ''chart_type_bar'' \<mapsto> JBool True))))"

text \<open>
  The part of \<open>detect_bar_chart\<close> that follows the bounding rectangles of the contours.
\<close>

definition bars_from_rects ::
  "rect list \<Rightarrow> nat \<Rightarrow> nat \<Rightarrow> flags \<Rightarrow> BarChartDetectResult \<times> flags" where
  "bars_from_rects rects img_w img_h flags =
     (let candidates = filter_bar_candidates rects img_w img_h
      in if candidates = [] then (empty_bar_result, flags)
         else
           (let merge_px = max 6 (int (int_mul_0_02 img_w));
                bs = cluster_by_x candidates merge_px
            in if length bs < 3 then
                 (\<lparr>bar_detected = False, bar_count = int (length bs), bars = bs,
                   baseline_y = 0, score = 0\<rparr>, flags)
               else classify_bars bs img_h flags))"

text \<open>
  \<open>detect_bar_chart(image, deadline)\<close>; \<open>image.size\<close> is the shape of the grayscale array.
  An exception of the denoising opening is passed over; any other one ends in the
  handler, with the flags set so far.
\<close>

definition detect_bar_chart_error :: "exn \<Rightarrow> flags \<Rightarrow> BarChartDetectResult \<times> flags" where
  "detect_bar_chart_error e flags =
     (empty_bar_result,
      flags(''extraction_error'' \<mapsto> JBool True,
            ''extraction_error_detail'' \<mapsto> JStr (exn_text e)))"

text \<open>The denoising opening: the cleaned image and the flags after it.\<close>

definition denoise_open :: "cv2_lib \<Rightarrow> mask \<Rightarrow> nat \<Rightarrow> nat \<Rightarrow> flags \<Rightarrow> mask \<times> flags" where
  "denoise_open cv2 bw img_w img_h flags =
     (let ksize = (if min img_w img_h \<ge> 300 then 5 else 3)
      in case morphologyEx_open cv2 bw (ksize, ksize) of
           Inl e \<Rightarrow> (bw, flags)
         | Inr m \<Rightarrow> (m, flags(''denoise_open_kernel'' \<mapsto> JInt (int ksize))))"

definition detect_bar_chart ::
  "string + cv2_lib \<Rightarrow> clock \<Rightarrow> mask \<Rightarrow> BarChartDetectResult \<times> flags" where
  "detect_bar_chart cv clk gray =
     (let flags = [''chart_detected'' \<mapsto> JBool False, ''chart_type_bar'' \<mapsto> JBool False]
      in if clk 0 then
           (empty_bar_result, flags(''time_budget_exceeded'' \<mapsto> JBool True))
         else
           (case cv of
              Inl cv2_err \<Rightarrow>
                (empty_bar_result,
                 flags(''opencv_missing'' \<mapsto> JBool True, ''opencv_error'' \<mapsto> JStr cv2_err))
            | Inr cv2 \<Rightarrow>
                (let img_w = ncols gray; img_h = nrows gray
                 in case threshold_binary cv2 gray of
                      Inl e \<Rightarrow> detect_bar_chart_error e flags
                    | Inr bw0 \<Rightarrow>
                        (case subtract_thin_axis_lines cv2 bw0 img_w img_h of
                           (bw1, line_flags) \<Rightarrow>
                             (case denoise_open cv2 bw1 img_w img_h (flags ++ line_flags) of
                                (bw2, flags2) \<Rightarrow>
                                  if clk 1 then
                                    (empty_bar_result,
                                     flags2(''time_budget_exceeded'' \<mapsto> JBool True))
                                  else
                                    (case findContours cv2 bw2 of
                                       Inl e \<Rightarrow> detect_bar_chart_error e flags2
                                     | Inr contours \<Rightarrow>
                                         bars_from_rects (map (boundingRect cv2) contours)
                                           img_w img_h flags2))))))"

text \<open>A rectangle lies fully inside an image of the given width and height.\<close>

definition rect_inside :: "nat \<Rightarrow> nat \<Rightarrow> rect \<Rightarrow> bool" where
  "rect_inside img_w img_h r \<longleftrightarrow>
     (case r of (x, y, w, h) \<Rightarrow>
        0 \<le> x \<and> 0 \<le> y \<and> 0 \<le> w \<and> 0 \<le> h \<and> x + w \<le> int img_w \<and> y + h \<le> int img_h)"

text \<open>
  The bounding rectangles of the contours that OpenCV finds in an image lie inside the
  image.
\<close>

definition cv2_rects_inside :: "cv2_lib \<Rightarrow> bool" where
  "cv2_rects_inside cv2 \<longleftrightarrow>
     (\<forall>m cs c. findContours cv2 m = Inr cs \<longrightarrow> c \<in> set cs \<longrightarrow>
        rect_inside (ncols m) (nrows m) (boundingRect cv2 c))"

text \<open>
  Fixtures for the bar-chart detector: an OpenCV stand-in for a 100 by 100 image whose
  external contours are the outlines of the given rectangles (the four corners, as
  \<open>CHAIN_APPROX_SIMPLE\<close> gives them), with the bounding box of a point list as
  \<open>boundingRect\<close>; the image itself has the rectangles in black on white.
\<close>

definition rect_contour :: "rect \<Rightarrow> contour" where
  "rect_contour r =
     (case r of (x, y, w, h) \<Rightarrow>
        [(x, y), (x + w - 1, y), (x + w - 1, y + h - 1), (x, y + h - 1)])"

definition bounding_box :: "contour \<Rightarrow> rect" where
  "bounding_box c =
     (case c of
        [] \<Rightarrow> (0, 0, 0, 0)
      | p # ps \<Rightarrow>
          (let x0 = fold min (map fst ps) (fst p); x1 = fold max (map fst ps) (fst p);
               y0 = fold min (map snd ps) (snd p); y1 = fold max (map snd ps) (snd p)
           in (x0, y0, x1 - x0 + 1, y1 - y0 + 1)))"

definition chart_cv2 :: "rect list \<Rightarrow> cv2_lib" where
  "chart_cv2 rs =
     \<lparr>GaussianBlur = (\<lambda>m k. Inr m),
      threshold_otsu_inv = (\<lambda>m. Inr (map (map (\<lambda>p. if p < 128 then 255 else 0)) m)),
      erode = (\<lambda>m k. Inr m),
      dilate = (\<lambda>m k. Inr m),
      morphologyEx_open = (\<lambda>m k. Inr m),
      findContours = (\<lambda>m. Inr (if nrows m = 100 \<and> ncols m = 100
                                then map rect_contour rs else [])),
      boundingRect = bounding_box,
      drawContours = (\<lambda>m c. Inr m)\<rparr>"

definition chart_gray :: "rect list \<Rightarrow> mask" where
  "chart_gray rs =
     map (\<lambda>j. map (\<lambda>i. if \<exists>(x, y, w, h)\<in>set rs.
                             x \<le> int i \<and> int i < x + w \<and> y \<le> int j \<and> int j < y + h
                          then 0 else 255) [0..<100]) [0..<100]"

text \<open>
  Two components, the wider one above and to the left of the other, and three bars on a
  common baseline, listed as found and not from left to right.
\<close>

definition ex_two_rects :: "rect list" where
  "ex_two_rects = [(0, 0, 50, 30), (10, 50, 10, 20)]"

definition ex_three_bars :: "rect list" where
  "ex_three_bars = [(50, 50, 10, 30), (10, 40, 10, 40), (30, 20, 10, 60)]"

section \<open>Bar-chart extractor (extractors/chart_bar.py)\<close>

text \<open>The \<open>chart\<close> object of the structured JSON, with its single series.\<close>

record series_json =
  series_name :: string
  series_values :: "double list"
  series_unit :: "string option"
  values_are_normalized :: bool

record chart_json =
  chart_type :: string
  chart_title :: "string option"
  chart_x_labels :: "string list"
  chart_series :: "series_json list"
  chart_y_unit :: "string option"
  chart_confidence :: real
  chart_method :: string
  chart_notes :: "string option"

text \<open>
  The collaborators of the extractor. An OCR item is \<open>(text, left, top, width, height)\<close>.
  \<open>ocr_data_fn\<close> is the optional argument of that name, applied to the crop of a region;
  \<open>pytesseract\<close> is the outcome of \<open>_try_import_pytesseract\<close>: the flags of a failed
  import, or \<open>image_to_data\<close> on the crop of a region, as the list of its entries.
  \<open>axis_number\<close> is \<open>_NUM_RE.search\<close> followed by \<open>_parse_number\<close> on the match, \<open>None\<close> when
  the token has no numeric literal or it does not parse. \<open>numpy_std\<close> and \<open>numpy_polyfit\<close>
  are \<open>np.std\<close> and \<open>np.polyfit(ys, vs, 1)\<close> on arrays of doubles, the latter as the pair
  of the slope and the intercept.
\<close>

type_synonym ocr_item = "string \<times> int \<times> int \<times> int \<times> int"

record chart_env =
  ocr_data_fn :: "(box \<Rightarrow> exn + ocr_item list) option"
  pytesseract :: "flags + (box \<Rightarrow> exn + ocr_item list)"
  axis_number :: "string \<Rightarrow> double option"
  numpy_std :: "double list \<Rightarrow> double"
  numpy_polyfit :: "double list \<Rightarrow> double list \<Rightarrow> double \<times> double"

definition ocr_strip_data :: "chart_env \<Rightarrow> box \<Rightarrow> bool \<Rightarrow> ocr_item list \<times> flags" where
  "ocr_strip_data env region expired =
     (if expired then ([], [''time_budget_exceeded'' \<mapsto> JBool True])
      else
        (case ocr_data_fn env of
           Some f \<Rightarrow>
             (case f region of
                Inr items \<Rightarrow> (items, Map.empty)
              | Inl e \<Rightarrow> ([], [''ocr_strip_failed'' \<mapsto> JBool True,
                                ''ocr_strip_error'' \<mapsto> JStr (exn_text e)]))
         | None \<Rightarrow>
             (case pytesseract env of
                Inl dep_flags \<Rightarrow> ([], dep_flags)
              | Inr image_to_data \<Rightarrow>
                  (case image_to_data region of
                     Inr entries \<Rightarrow>
                       (map (\<lambda>(t, l, tp, w, h). (strip t, l, tp, w, h))
                          (filter (\<lambda>(t, l, tp, w, h). strip t \<noteq> []) entries),
                        Map.empty)
                   | Inl e \<Rightarrow> ([], [''ocr_strip_failed'' \<mapsto> JBool True,
                                     ''ocr_strip_error'' \<mapsto> JStr (exn_text e)])))))"

text \<open>The doubles of the literals \<open>0.02\<close> and \<open>1e-6\<close>.\<close>

definition c_0_02 :: double where
  "c_0_02 = Finite (5764607523034235 / 2 ^ 58)"

definition c_1e_6 :: double where
  "c_1e_6 = Finite (4722366482869645 / 2 ^ 72)"

text \<open>
  \<open>_fit_linear_y_map\<close>: the line \<open>v = a * y + b\<close> that numpy fits to the points, unless
  there are fewer than two or the deviation of their heights is below \<open>1e-6\<close>.
\<close>

definition fit_linear_y_map :: "chart_env \<Rightarrow> (double \<times> double) list \<Rightarrow> (double \<times> double) option" where
  "fit_linear_y_map env points =
     (if length points < 2 then None
      else
        (let ys = map fst points; vs = map snd points
         in if flt (numpy_std env ys) c_1e_6 then None
            else Some (numpy_polyfit env ys vs)))"

text \<open>The thinning loop: up to six points, more than 12 pixels apart.\<close>

fun thin_points ::
  "(double \<times> double) list \<Rightarrow> (double \<times> double) list \<Rightarrow> double option \<Rightarrow>
   (double \<times> double) list" where
  "thin_points [] thinned last_y = thinned"
| "thin_points ((y, v) # ps) thinned last_y =
     (let keep = (case last_y of
                    None \<Rightarrow> True
                  | Some ly \<Rightarrow> flt (Finite 12) (fabs (fsub y ly)));
          thinned' = (if keep then thinned @ [(y, v)] else thinned);
          last_y' = (if keep then Some y else last_y)
      in if length thinned' \<ge> 6 then thinned' else thin_points ps thinned' last_y')"

text \<open>
  The axis mapping attempt: the axis points and the flags of the strip OCR.
  \<open>expired\<close> is the reading of the clock in \<open>_ocr_strip_data\<close>. The bottom of the strip
  is \<open>int(baseline_y + img_h * 0.02)\<close>, a sum of doubles; when it is not finite \<open>int\<close>
  raises and the handler of the attempt leaves no axis point. The height of a point is
  \<open>strip_t + top + height / 2\<close>, an integer plus a double.
\<close>

definition axis_points_of ::
  "chart_env \<Rightarrow> nat \<times> nat \<Rightarrow> rect list \<Rightarrow> int \<Rightarrow> bool \<Rightarrow> (double \<times> double) list \<times> flags" where
  "axis_points_of env img_size bs baseline expired =
     (let img_w = fst img_size; img_h = snd img_size;
          min_x = fold min (map fst (tl bs)) (fst (hd bs));
          strip_l = max 0 (min_x - int (int_mul_0_22 img_w));
          strip_r = max 0 (min_x - int (int_mul_0_02 img_w));
          strip_t = max 0 (int (int_mul_0_05 img_h))
      in case float_to_int (fadd (to_double baseline) (fmul (to_double (int img_h)) c_0_02)) of
           None \<Rightarrow> ([], Map.empty)
         | Some sb \<Rightarrow>
             (let strip_b = min (int img_h) sb
              in if strip_r > strip_l + 4 \<and> strip_b > strip_t + 4 then
                   (case ocr_strip_data env (strip_l, strip_t, strip_r, strip_b) expired of
                      (items, ocr_flags) \<Rightarrow>
                        (let pts = concat (map (\<lambda>(t, l, tp, w, h).
                                     (case axis_number env t of
                                        None \<Rightarrow> []
                                      | Some v \<Rightarrow>
                                          [(fadd (to_double (strip_t + tp)) (int_truediv h 2), v)]))
                                     items)
                         in (if length pts \<ge> 2 then thin_points (sort_key fst pts) [] None
                             else pts,
                             ocr_flags)))
                 else ([], Map.empty)))"

text \<open>The bar heights in pixels, over the bars sorted by x.\<close>

definition heights_px :: "BarChartDetectResult \<Rightarrow> int list" where
  "heights_px detect =
     map (\<lambda>(x, y, w, h). max 0 (baseline_y detect - y)) (sort_key fst (bars detect))"

text \<open>
  The labels loop over the OCR blocks below the baseline. The centre of a block, the
  centres of the bars and the threshold \<open>float(baseline_y) + img_h * 0.03\<close> are doubles
  of the size of pixel coordinates, given as the real numbers they denote.
\<close>

fun label_loop :: "nat \<times> nat \<Rightarrow> int \<Rightarrow> real list \<Rightarrow> OcrBlock list \<Rightarrow> string list \<Rightarrow> string list" where
  "label_loop img_size baseline x_centers [] labels = labels"
| "label_loop img_size baseline x_centers (blk # blks) labels =
     (if block_text blk = [] then label_loop img_size baseline x_centers blks labels
      else
        (let cx = block_center (bbox_x (block_bbox blk)) (bbox_w (block_bbox blk))
                    (int (fst img_size));
             cy = block_center (bbox_y (block_bbox blk)) (bbox_h (block_bbox blk))
                    (int (snd img_size))
         in if cy < rnd (rnd (real_of_int baseline)
                         + rnd (rnd (real (snd img_size)) * (8646911284551352 / 2 ^ 58))) then
              label_loop img_size baseline x_centers blks labels
            else
              (let j = argmin (map (\<lambda>bx. \<bar>rnd (cx - bx)\<bar>) x_centers)
               in label_loop img_size baseline x_centers blks
                    (labels[j := strip (labels ! j @ '' '' @ strip (block_text blk))]))))"

definition empty_chart :: chart_json where
  "empty_chart =
     \<lparr>chart_type = ''bar'', chart_title = None, chart_x_labels = [],
      chart_series = [\<lparr>series_name = ''Series 1'', series_values = [], series_unit = None,
                       values_are_normalized = True\<rparr>],
      chart_y_unit = None, chart_confidence = 0, chart_method = ''bar_pixels_v1'',
      chart_notes = None\<rparr>"

text \<open>
  The values of the bars: the delta of the mapped top from the mapped baseline when an
  axis mapping was fitted, the height over the largest height otherwise. Every product,
  sum and difference is one of doubles, and the quotient is the true division of
  integers.
\<close>

definition bar_values :: "(double \<times> double) option \<Rightarrow> int \<Rightarrow> int list \<Rightarrow> double list" where
  "bar_values mapping baseline hs =
     (case mapping of
        Some (a, b) \<Rightarrow>
          (let v_base = fadd (fmul a (to_double baseline)) b
           in map (\<lambda>hpx. fsub (fadd (fmul a (to_double (baseline - hpx))) b) v_base) hs)
      | None \<Rightarrow>
          (let max_h = max 1 (fold max (tl hs) (hd hs))
           in map (\<lambda>h. int_truediv h max_h) hs))"

text \<open>The labels of the bars, and whether any of them is non-empty.\<close>

definition bar_labels ::
  "nat \<times> nat \<Rightarrow> int \<Rightarrow> rect list \<Rightarrow> OcrBlock list option \<Rightarrow> string list \<times> bool" where
  "bar_labels img_size baseline bs ocr_blocks =
     (let x_centers = map (\<lambda>(x, y, w, h). rnd (real_of_int x + rnd (real_of_int w / 2))) bs;
          labels = (case ocr_blocks of
                      None \<Rightarrow> replicate (length bs) []
                    | Some blks \<Rightarrow>
                        label_loop img_size baseline x_centers blks (replicate (length bs) []))
      in (labels, ocr_blocks \<noteq> None \<and> ocr_blocks \<noteq> Some [] \<and> (\<exists>l\<in>set labels. strip l \<noteq> [])))"

text \<open>The confidence of the chart, from the detection score and the flags.\<close>

definition chart_conf :: "real \<Rightarrow> flags \<Rightarrow> bool \<Rightarrow> real" where
  "chart_conf sc flags normalized =
     (let conf0 = clamp01 (45 / 100 + 45 / 100 * sc);
          conf1 = (if truthy (flags ''axis_mapping_succeeded'')
                   then clamp01 (conf0 + 18 / 100) else conf0);
          conf2 = (if truthy (flags ''x_labels_missing'')
                   then clamp01 (conf1 - 10 / 100) else conf1)
      in if normalized then clamp01 (conf2 - 8 / 100) else conf2)"

text \<open>
  The body of the \<open>try\<close> block of \<open>extract_bar_chart\<close>. \<open>max(heights_px)\<close> raises on an
  empty list of bars; the handler then returns the untouched chart.
\<close>

definition extract_bar_chart_try ::
  "chart_env \<Rightarrow> nat \<times> nat \<Rightarrow> BarChartDetectResult \<Rightarrow> OcrBlock list option \<Rightarrow> clock \<Rightarrow>
   chart_json \<times> flags" where
  "extract_bar_chart_try env img_size detect ocr_blocks clk =
     (let flags = [''chart_detected'' \<mapsto> JBool (bar_detected detect),
                   ''chart_type_bar'' \<mapsto> JBool True,
                   ''axis_mapping_succeeded'' \<mapsto> JBool False,
                   ''axis_mapping_failed'' \<mapsto> JBool False,
                   ''x_labels_missing'' \<mapsto> JBool False,
                   ''values_normalized'' \<mapsto> JBool True];
          chart = empty_chart
      in if \<not> bar_detected detect \<or> bar_count detect < 3 then
           (chart\<lparr>chart_notes := Some ''not_detected''\<rparr>, flags)
         else if bars detect = [] then
           (chart\<lparr>chart_confidence := 0, chart_notes := Some ''extraction_error''\<rparr>,
            flags(''extraction_error'' \<mapsto> JBool True,
                  ''extraction_error_detail'' \<mapsto> JStr ''max() arg is an empty sequence''))
         else if clk 0 then
           (chart\<lparr>chart_notes := Some ''time_budget_exceeded''\<rparr>,
            flags(''time_budget_exceeded'' \<mapsto> JBool True))
         else
           (case axis_points_of env img_size (sort_key fst (bars detect))
                   (baseline_y detect) (clk 1) of
              (axis_points, ocr_flags) \<Rightarrow>
                (let flags1 = flags ++ ocr_flags;
                     mapping = (if length axis_points \<ge> 2
                                then fit_linear_y_map env axis_points else None);
                     vals = bar_values mapping (baseline_y detect) (heights_px detect);
                     normalized = (mapping = None);
                     flags2 = (case mapping of
                                 Some ab \<Rightarrow>
                                   flags1(''axis_mapping_succeeded'' \<mapsto> JBool True,
                                          ''values_normalized'' \<mapsto> JBool False)
                               | None \<Rightarrow> flags1(''axis_mapping_failed'' \<mapsto> JBool True))
                 in case bar_labels img_size (baseline_y detect)
                           (sort_key fst (bars detect)) ocr_blocks of
                      (labels, have_labels) \<Rightarrow>
                        (let flags3 = (if have_labels then flags2
                                       else flags2(''x_labels_missing'' \<mapsto> JBool True))
                         in (chart\<lparr>chart_series :=
                                      [\<lparr>series_name = ''Series 1'', series_values = vals,
                                        series_unit = None,
                                        values_are_normalized = normalized\<rparr>],
                                    chart_x_labels :=
                                      (if have_labels then map strip labels else []),
                                    chart_confidence :=
                                      chart_conf (score detect) flags3 normalized,
                                    chart_notes :=
                                      Some (if bar_count detect > 0 then ''mvp_single_series''
                                            else ''no_bars'')\<rparr>,
                             flags3)))))"

text \<open>
  \<open>extract_bar_chart(image, detect, ocr_blocks, deadline, ocr_data_fn)\<close>: \<open>img_size\<close> is
  \<open>image.size\<close> and \<open>elapsed_ms\<close> the reading that the \<open>finally\<close> clause stores.
\<close>

definition extract_bar_chart ::
  "chart_env \<Rightarrow> nat \<times> nat \<Rightarrow> BarChartDetectResult \<Rightarrow> OcrBlock list option \<Rightarrow> clock \<Rightarrow> int \<Rightarrow>
   chart_json \<times> flags" where
  "extract_bar_chart env img_size detect ocr_blocks clk elapsed_ms =
     (case extract_bar_chart_try env img_size detect ocr_blocks clk of
        (chart, flags) \<Rightarrow> (chart, flags(''chart_elapsed_ms'' \<mapsto> JInt elapsed_ms)))"

text \<open>The values of the single series of a chart.\<close>

definition chart_values :: "chart_json \<Rightarrow> double list" where
  "chart_values chart = series_values (hd (chart_series chart))"

definition chart_normalized :: "chart_json \<Rightarrow> bool" where
  "chart_normalized chart = values_are_normalized (hd (chart_series chart))"

text \<open>The linear axis mapping that \<open>extract_bar_chart\<close> fits, if any.\<close>

definition chart_mapping ::
  "chart_env \<Rightarrow> nat \<times> nat \<Rightarrow> BarChartDetectResult \<Rightarrow> clock \<Rightarrow> (double \<times> double) option" where
  "chart_mapping env img_size detect clk =
     (let pts = fst (axis_points_of env img_size (sort_key fst (bars detect))
                       (baseline_y detect) (clk 1))
      in if length pts \<ge> 2 then fit_linear_y_map env pts else None)"

text \<open>
  \<open>extract_bar_chart\<close> reaches the computation of the values: a chart was detected with
  at least three bars, the list of bars is not empty and the deadline has not expired.
\<close>

definition chart_values_computed :: "BarChartDetectResult \<Rightarrow> clock \<Rightarrow> bool" where
  "chart_values_computed detect clk \<longleftrightarrow>
     bar_detected detect \<and> 3 \<le> bar_count detect \<and> bars detect \<noteq> [] \<and> \<not> clk 0"

text \<open>
  The baseline and the tops of the bars are integers that \<open>float\<close> converts.
\<close>

definition coords_fit :: "BarChartDetectResult \<Rightarrow> bool" where
  "coords_fit detect \<longleftrightarrow>
     float_fits (baseline_y detect) \<and> list_all (\<lambda>(x, y, w, h). float_fits y) (bars detect)"

text \<open>
  An environment without OCR, and one whose strip OCR reads the tick labels 100 and 0 at
  the heights 25 and 75. On these two points \<open>np.std\<close> is 25.0 and \<open>np.polyfit\<close> answers
  with the doubles -1.9999999999999993 and 149.99999999999997, \<open>ex_slope\<close> and
  \<open>ex_intercept\<close>.
\<close>

definition ex_slope :: real where
  "ex_slope = - 9007199254740989 / 2 ^ 52"

definition ex_intercept :: real where
  "ex_intercept = 5277655813324799 / 2 ^ 45"


definition ticks_env :: chart_env where
  "ticks_env =
     \<lparr>ocr_data_fn = Some (\<lambda>region. Inr [(''100'', 0, 15, 8, 10), (''0'', 0, 65, 8, 10)]),
      pytesseract = Inl [''tesseract_binary_missing'' \<mapsto> JBool True],
      axis_number = (\<lambda>t. if t = ''100'' then Some (Finite 100)
                          else if t = ''0'' then Some (Finite 0) else None),
      numpy_std = (\<lambda>ys. Finite 25),
      numpy_polyfit = (\<lambda>ys vs. (Finite ex_slope, Finite ex_intercept))\<rparr>"


definition ex_three_detect_result :: BarChartDetectResult where
  "ex_three_detect_result =
     \<lparr>bar_detected = True, bar_count = 3,
      bars = [(10, 40, 10, 40), (30, 20, 10, 60), (50, 50, 10, 30)],
      baseline_y = 80, score = 5 / 8\<rparr>"

text \<open>
  A detection of four bars that are not in the order of x, whose rectangles do not all
  end on the baseline and one of which lies below it.
\<close>

definition ex_four_detect_result :: BarChartDetectResult where
  "ex_four_detect_result =
     \<lparr>bar_detected = True, bar_count = 4,
      bars = [(50, 50, 10, 32), (70, 85, 10, 5), (10, 40, 10, 40), (30, 20, 10, 58)],
      baseline_y = 80, score = 5 / 8\<rparr>"

section \<open>Models, layout and OCR-lite (models.py, extractors/layout.py, extractors/ocr.py)\<close>

datatype AssetType = Chart | Table | MapAsset | Diagram | ImageText | Unknown

text \<open>
  The structured JSON of an extraction is empty or holds a \<open>table\<close> or a \<open>chart\<close> object.
\<close>

record structured_json =
  json_table :: "table_json option"
  json_chart :: "chart_json option"

record VisualExtraction =
  ocr_text :: "string option"
  ocr_blocks :: "OcrBlock list"
  structured :: structured_json
  units :: "string option"
  model_version :: "string option"
  extraction_confidence :: real

record VisualAsset =
  asset_type :: AssetType
  bbox :: BBox
  confidence :: real
  quality_flags :: flags
  image_uri :: "string option"
  image_hash :: "string option"
  extraction :: VisualExtraction

record ExtractVisualsRequest =
  req_document_id :: string
  req_page_index :: int
  req_image_uri :: string
  req_extractor_version :: string

record ExtractVisualsResponse =
  document_id :: string
  page_index :: int
  extractor_version :: string
  assets :: "VisualAsset list"

record JSONResponse =
  status_code :: nat
  content :: ExtractVisualsResponse

definition full_bbox :: BBox where
  "full_bbox = \<lparr>bbox_x = 0, bbox_y = 0, bbox_w = 1, bbox_h = 1\<rparr>"

definition empty_extraction :: VisualExtraction where
  "empty_extraction =
     \<lparr>ocr_text = None, ocr_blocks = [],
      structured = \<lparr>json_table = None, json_chart = None\<rparr>,
      units = None, model_version = None, extraction_confidence = 0\<rparr>"

definition detect_layout_assets :: "string \<Rightarrow> nat \<Rightarrow> nat \<Rightarrow> VisualAsset list" where
  "detect_layout_assets version image_width image_height =
     [\<lparr>asset_type = ImageText, bbox = full_bbox, confidence = 1 / 2,
       quality_flags = [''layout'' \<mapsto> JStr ''fallback_full_page''],
       image_uri = None, image_hash = None, extraction = empty_extraction\<rparr>]"

text \<open>
  The OCR engine: the outcome of \<open>import pytesseract\<close>, whether the \<open>tesseract\<close> binary is
  on the path, \<open>image_to_data\<close> as the list of its entries
  \<open>(text, left, top, width, height, conf)\<close> (\<open>conf\<close> is \<open>None\<close> when it is missing or is not
  a number) and \<open>image_to_string\<close> on a crop of an image.
\<close>

type_synonym ocr_entry = "string \<times> int \<times> int \<times> int \<times> int \<times> real option"

record tesseract =
  import_pytesseract :: "exn + unit"
  binary_found :: bool
  image_to_data :: "mask \<Rightarrow> exn + ocr_entry list"
  image_to_string :: "mask \<Rightarrow> box \<Rightarrow> exn + string"

definition norm_bbox :: "int \<Rightarrow> int \<Rightarrow> int \<Rightarrow> int \<Rightarrow> int \<Rightarrow> int \<Rightarrow> BBox" where
  "norm_bbox x y w h img_w img_h =
     (if img_w \<le> 0 \<or> img_h \<le> 0 then full_bbox
      else \<lparr>bbox_x = clamp01 (real_of_int x / real_of_int img_w),
            bbox_y = clamp01 (real_of_int y / real_of_int img_h),
            bbox_w = clamp01 (real_of_int w / real_of_int img_w),
            bbox_h = clamp01 (real_of_int h / real_of_int img_h)\<rparr>)"

definition ocr_block_of :: "int \<Rightarrow> int \<Rightarrow> ocr_entry \<Rightarrow> OcrBlock" where
  "ocr_block_of img_w img_h e =
     (case e of (raw_text, l, t, w, h, conf_raw) \<Rightarrow>
        \<lparr>block_text = strip raw_text,
         block_bbox = norm_bbox l t w h img_w img_h,
         block_confidence =
           (case conf_raw of
              None \<Rightarrow> None
            | Some c \<Rightarrow> if c \<ge> 0 then Some (clamp01 (c / 100)) else None)\<rparr>)"

definition run_ocr_lite :: "tesseract \<Rightarrow> mask \<Rightarrow> VisualExtraction \<times> flags" where
  "run_ocr_lite tess img =
     (case import_pytesseract tess of
        Inl e \<Rightarrow>
          (empty_extraction,
           [''ocr'' \<mapsto> JStr ''pytesseract_missing'', ''ocr_error'' \<mapsto> JStr (exn_text e)])
      | Inr u \<Rightarrow>
          if \<not> binary_found tess then
            (empty_extraction, [''ocr'' \<mapsto> JStr ''tesseract_binary_missing''])
          else
            (case image_to_data tess img of
               Inl e \<Rightarrow>
                 (empty_extraction,
                  [''ocr'' \<mapsto> JStr ''failed'', ''ocr_error'' \<mapsto> JStr (exn_text e)])
             | Inr entries \<Rightarrow>
                 (let blocks = map (ocr_block_of (int (ncols img)) (int (nrows img)))
                                 (filter (\<lambda>(raw_text, rest). strip raw_text \<noteq> []) entries);
                      text_items = map block_text blocks;
                      txt = (if text_items \<noteq> [] then Some (strip (join_space text_items))
                             else None);
                      has_text = (case txt of None \<Rightarrow> False | Some s \<Rightarrow> s \<noteq> []);
                      confs = concat (map (\<lambda>b. case block_confidence b of
                                                  None \<Rightarrow> [] | Some c \<Rightarrow> [c]) blocks);
                      conf = (if confs \<noteq> []
                              then clamp01 (sum_list confs / real (max 1 (length confs)))
                              else if has_text then 1 / 2 else 0)
                  in (empty_extraction\<lparr>ocr_text := txt, ocr_blocks := blocks,
                                         extraction_confidence := conf\<rparr>,
                      if has_text then Map.empty
                      else [''ocr'' \<mapsto> JStr ''no_text_detected'']))))"

text \<open>\<open>_default_cell_ocr\<close> on a crop of the image; it never raises.\<close>

definition default_cell_ocr :: "tesseract \<Rightarrow> mask \<Rightarrow> cell_ocr" where
  "default_cell_ocr tess img region =
     (case import_pytesseract tess of
        Inl e \<Rightarrow>
          Inr ([], [''pytesseract_missing'' \<mapsto> JBool True,
                    ''pytesseract_error'' \<mapsto> JStr (exn_text e)])
      | Inr u \<Rightarrow>
          if \<not> binary_found tess then Inr ([], [''tesseract_binary_missing'' \<mapsto> JBool True])
          else
            (case image_to_string tess img region of
               Inr s \<Rightarrow> Inr (strip s, Map.empty)
             | Inl e \<Rightarrow>
                 Inr ([], [''cell_ocr_failed'' \<mapsto> JBool True,
                           ''cell_ocr_error'' \<mapsto> JStr (exn_text e)])))"

section \<open>Orchestrator (main.py)\<close>

text \<open>
  The world of one request: the HTTP client and the file system give the content or
  raise, \<open>sha256_hex\<close> is the digest, \<open>image_open\<close> is \<open>Image.open\<close> followed by \<open>load\<close> (the
  decoded image as its grayscale array), \<open>import_cv2\<close> and \<open>ocr_engine\<close> are the optional
  libraries, and the clocks are the readings of the two stages against the table
  deadline.
\<close>

type_synonym byte = "8 word"

record world =
  http_get :: "string \<Rightarrow> exn + byte list"
  read_file :: "string \<Rightarrow> exn + byte list"
  sha256_hex :: "byte list \<Rightarrow> string"
  image_open :: "byte list \<Rightarrow> exn + mask"
  import_cv2 :: "string + cv2_lib"
  ocr_engine :: tesseract
  detect_clock :: clock
  extract_clock :: clock
  table_elapsed_ms :: int

definition startswith :: "string \<Rightarrow> string \<Rightarrow> bool" where
  "startswith s p \<longleftrightarrow> take (length p) s = p"

definition read_image_bytes :: "world \<Rightarrow> string \<Rightarrow> byte list option \<times> flags" where
  "read_image_bytes w uri =
     (if startswith uri ''http://'' \<or> startswith uri ''https://'' then
        (case http_get w uri of
           Inr body \<Rightarrow> (Some body, Map.empty)
         | Inl e \<Rightarrow>
             (None, [''image_load'' \<mapsto> JStr ''download_failed'',
                     ''image_load_error'' \<mapsto> JStr (exn_text e)]))
      else
        (case read_file w uri of
           Inr body \<Rightarrow> (Some body, Map.empty)
         | Inl e \<Rightarrow>
             (None, [''image_load'' \<mapsto> JStr ''file_read_failed'',
                     ''image_load_error'' \<mapsto> JStr (exn_text e)])))"

text \<open>The synthetic asset of a failure.\<close>

definition error_asset :: "string \<Rightarrow> flags \<Rightarrow> string option \<Rightarrow> VisualAsset" where
  "error_asset err fl hash =
     \<lparr>asset_type = Unknown, bbox = full_bbox, confidence = 0,
      quality_flags = [''error'' \<mapsto> JStr err] ++ fl,
      image_uri = None, image_hash = hash, extraction = empty_extraction\<rparr>"

definition respond :: "ExtractVisualsRequest \<Rightarrow> VisualAsset list \<Rightarrow> JSONResponse" where
  "respond req as =
     \<lparr>status_code = 200,
      content = \<lparr>document_id = req_document_id req, page_index = req_page_index req,
                 extractor_version = req_extractor_version req, assets = as\<rparr>\<rparr>"

text \<open>
  The stages that a request can run on a region, in the order in which they were run.
\<close>

datatype stage = RunOcrLite | DetectTable | ExtractTable | DetectBarChart | ExtractBarChart

text \<open>
  The body of the loop over the layout regions: the asset as the loop leaves it, and
  the stages run.
\<close>

definition process_asset :: "world \<Rightarrow> mask \<Rightarrow> string \<Rightarrow> VisualAsset \<Rightarrow> VisualAsset \<times> stage list" where
  "process_asset w img hash a =
     (case run_ocr_lite (ocr_engine w) img of
        (ex, ocr_flags) \<Rightarrow>
     (case detect_table (import_cv2 w) (detect_clock w) img of
        (detect_res, table_detect_flags) \<Rightarrow>
          (let a1 = a\<lparr>extraction := ex, image_uri := None, image_hash := Some hash,
                      quality_flags := quality_flags a ++ ocr_flags ++ table_detect_flags\<rparr>;
               has_text = (case ocr_text ex of None \<Rightarrow> False | Some s \<Rightarrow> s \<noteq> [])
           in if detected detect_res then
                (case extract_table (int (ncols img), int (nrows img)) detect_res
                        (Some (ocr_blocks ex)) (extract_clock w)
                        (default_cell_ocr (ocr_engine w) img) (table_elapsed_ms w) of
                   (tbl, table_flags) \<Rightarrow>
                     (let table_conf = table_confidence tbl;
                          ex2 = ex\<lparr>structured := \<lparr>json_table = Some tbl, json_chart = None\<rparr>,
                                   extraction_confidence :=
                                     max (extraction_confidence ex) table_conf\<rparr>;
                          a2 = a1\<lparr>asset_type := Table,
                                   quality_flags := quality_flags a1 ++ table_flags,
                                   extraction := ex2,
                                   confidence := max (confidence a1) table_conf\<rparr>
                      in (a2\<lparr>confidence :=
                                (if has_text
                                 then max (confidence a2) (extraction_confidence ex2)
                                 else min (confidence a2) (1 / 4))\<rparr>,
                          [RunOcrLite, DetectTable, ExtractTable])))
              else
                (a1\<lparr>confidence :=
                       (if has_text then max (confidence a1) (extraction_confidence ex)
                        else min (confidence a1) (1 / 4))\<rparr>,
                 [RunOcrLite, DetectTable]))))"

text \<open>
  \<open>extract_visuals(req)\<close>: the response and, for each region, the stages run. The stages
  never raise, so the outer guard of the source (\<open>uncaught_exception\<close>) has no branch here.
\<close>

definition extract_visuals :: "world \<Rightarrow> ExtractVisualsRequest \<Rightarrow> JSONResponse \<times> stage list list" where
  "extract_visuals w req =
     (case read_image_bytes w (req_image_uri req) of
        (image_bytes, load_flags) \<Rightarrow>
          (case image_bytes of
             None \<Rightarrow> (respond req [error_asset ''image_load_failed'' load_flags None], [])
           | Some bs \<Rightarrow>
               if bs = [] then
                 (respond req [error_asset ''image_load_failed'' load_flags None], [])
               else
                 (let hash = sha256_hex w bs
                  in case image_open w bs of
                       Inl e \<Rightarrow>
                         (respond req
                            [error_asset ''image_decode_failed''
                               [''image_decode'' \<mapsto> JStr ''failed'',
                                ''image_decode_error'' \<mapsto> JStr (exn_text e)]
                               (Some hash)], [])
                     | Inr img \<Rightarrow>
                         (let results = map (process_asset w img hash)
                                (detect_layout_assets (req_extractor_version req)
                                   (ncols img) (nrows img))
                          in (respond req (map fst results), map snd results)))))"

text \<open>
  The request loads and decodes: the image bytes \<open>bs\<close> were read, they are not empty and
  they decode to \<open>img\<close>.
\<close>

definition decoded :: "world \<Rightarrow> ExtractVisualsRequest \<Rightarrow> byte list \<Rightarrow> mask \<Rightarrow> bool" where
  "decoded w req bs img \<longleftrightarrow>
     fst (read_image_bytes w (req_image_uri req)) = Some bs \<and> bs \<noteq> [] \<and>
     image_open w bs = Inr img"

text \<open>The results of the stages on the image of a request.\<close>

definition ocr_of :: "world \<Rightarrow> mask \<Rightarrow> VisualExtraction" where
  "ocr_of w img = fst (run_ocr_lite (ocr_engine w) img)"

definition has_ocr_text :: "VisualExtraction \<Rightarrow> bool" where
  "has_ocr_text ex = (case ocr_text ex of None \<Rightarrow> False | Some s \<Rightarrow> s \<noteq> [])"

definition table_detect_of :: "world \<Rightarrow> mask \<Rightarrow> TableDetectResult" where
  "table_detect_of w img = fst (detect_table (import_cv2 w) (detect_clock w) img)"

definition table_of :: "world \<Rightarrow> mask \<Rightarrow> table_json" where
  "table_of w img =
     fst (extract_table (int (ncols img), int (nrows img)) (table_detect_of w img)
            (Some (ocr_blocks (ocr_of w img))) (extract_clock w)
            (default_cell_ocr (ocr_engine w) img) (table_elapsed_ms w))"

text \<open>The single asset of a response and the stages run for it.\<close>

definition the_asset :: "JSONResponse \<times> stage list list \<Rightarrow> VisualAsset" where
  "the_asset r = hd (assets (content (fst r)))"

text \<open>
  Fixtures: an OCR engine whose binary is missing and one that reads the word \<open>Total\<close> with
  confidence 30; a request for a local file; worlds whose file holds the ruled grid, the
  bar chart, nothing at all, or bytes that do not decode; and a world whose download
  fails.
\<close>

definition no_tess :: tesseract where
  "no_tess =
     \<lparr>import_pytesseract = Inr (), binary_found = False,
      image_to_data = (\<lambda>img. Inr []), image_to_string = (\<lambda>img region. Inr [])\<rparr>"

definition text_tess :: tesseract where
  "text_tess =
     \<lparr>import_pytesseract = Inr (), binary_found = True,
      image_to_data = (\<lambda>img. Inr [(''Total'', 2, 2, 2, 1, Some 30)]),
      image_to_string = (\<lambda>img region. Inr [])\<rparr>"

definition ex_req :: ExtractVisualsRequest where
  "ex_req =
     \<lparr>req_document_id = ''doc'', req_page_index = 0, req_image_uri = ''page.png'',
      req_extractor_version = ''vision_v1''\<rparr>"

definition http_req :: ExtractVisualsRequest where
  "http_req = ex_req\<lparr>req_image_uri := ''http://host/page.png''\<rparr>"

definition grid_world :: world where
  "grid_world =
     \<lparr>http_get = (\<lambda>u. Inl (Exception ''404 Client Error'')),
      read_file = (\<lambda>p. Inr [137, 80, 78, 71]),
      sha256_hex = (\<lambda>bs. ''0f'' @ map (\<lambda>b. CHR ''a'') bs),
      image_open = (\<lambda>bs. Inr ex_gray),
      import_cv2 = Inr ex_cv2,
      ocr_engine = no_tess,
      detect_clock = never_expired, extract_clock = never_expired,
      table_elapsed_ms = 0\<rparr>"

definition text_grid_world :: world where
  "text_grid_world = grid_world\<lparr>ocr_engine := text_tess\<rparr>"

definition chart_world :: world where
  "chart_world =
     grid_world\<lparr>image_open := (\<lambda>bs. Inr (chart_gray ex_three_bars)),
                import_cv2 := Inr (chart_cv2 ex_three_bars)\<rparr>"

definition empty_file_world :: world where
  "empty_file_world =
     grid_world\<lparr>read_file := (\<lambda>p. Inr []),
                image_open := (\<lambda>bs. Inl (Exception ''cannot identify image file''))\<rparr>"

definition bad_file_world :: world where
  "bad_file_world =
     grid_world\<lparr>image_open := (\<lambda>bs. Inl (Exception ''cannot identify image file''))\<rparr>"

definition chart_bw :: mask where
  "chart_bw = map (map (\<lambda>p. if p < 128 then 255 else 0)) (chart_gray ex_three_bars)"

section \<open>Verification\<close>

subsection \<open>Line positions\<close>

lemma seg_loop_bounds:
  "start \<le> prev \<Longrightarrow> sorted_wrt (<) (prev # xs) \<Longrightarrow>
   \<forall>c \<in> set (seg_loop start prev xs). start \<le> c \<and> c \<le> last (prev # xs)"
proof (induction xs arbitrary: start prev)
  case Nil
  have "start \<le> (start + prev) div 2 \<and> (start + prev) div 2 \<le> prev"
    using Nil.prems(1) by linarith
  then show ?case by simp
next
  case (Cons i rest)
  have lt: "prev < i" using Cons.prems(2) by simp
  have srt: "sorted_wrt (<) (i # rest)" using Cons.prems(2) by simp
  have le_last: "i \<le> last (i # rest)"
    using srt by (cases rest) (auto simp: less_imp_le)
  show ?case
  proof (cases "i = prev + 1")
    case True
    have "start \<le> i" using Cons.prems(1) lt by simp
    from Cons.IH[OF this srt] True show ?thesis by simp
  next
    case False
    have ih: "\<forall>c\<in>set (seg_loop i i rest). i \<le> c \<and> c \<le> last (i # rest)"
      using Cons.IH[of i i] srt by simp
    have mid: "start \<le> (start + prev) div 2 \<and> (start + prev) div 2 \<le> prev"
      using Cons.prems(1) by linarith
    show ?thesis using False ih mid lt le_last Cons.prems(1)
      by (auto simp del: last.simps simp add: last_ConsR) 
  qed
qed

lemma seg_loop_sorted:
  "start \<le> prev \<Longrightarrow> sorted_wrt (<) (prev # xs) \<Longrightarrow>
   sorted_wrt (<) (seg_loop start prev xs)"
proof (induction xs arbitrary: start prev)
  case Nil
  then show ?case by simp
next
  case (Cons i rest)
  have lt: "prev < i" using Cons.prems(2) by simp
  have srt: "sorted_wrt (<) (i # rest)" using Cons.prems(2) by simp
  show ?case
  proof (cases "i = prev + 1")
    case True
    have "start \<le> i" using Cons.prems(1) lt by simp
    from Cons.IH[OF this srt] True show ?thesis by simp
  next
    case False
    have ih: "sorted_wrt (<) (seg_loop i i rest)"
      using Cons.IH[of i i] srt by simp
    have bnd: "\<forall>c\<in>set (seg_loop i i rest). i \<le> c"
      using seg_loop_bounds[of i i rest] srt by simp
    have mid: "(start + prev) div 2 \<le> prev"
      using Cons.prems(1) by linarith
    show ?thesis using False ih bnd mid lt by fastforce
  qed
qed

lemma seg_loop_runs:
  "start \<le> prev \<Longrightarrow> sorted_wrt (<) (prev # xs) \<Longrightarrow>
   (\<forall>i. start \<le> i \<and> i \<le> prev \<longrightarrow> i \<in> A) \<Longrightarrow> start - 1 \<notin> A \<Longrightarrow>
   (\<forall>i. prev < i \<longrightarrow> (i \<in> A \<longleftrightarrow> i \<in> set xs)) \<Longrightarrow>
   \<forall>c \<in> set (seg_loop start prev xs). run_midpoint A c"
proof (induction xs arbitrary: start prev)
  case Nil
  have "maximal_run A start prev"
    using Nil by (simp add: maximal_run_def)
  then show ?case by (auto simp: run_midpoint_def)
next
  case (Cons i rest)
  have lt: "prev < i" using Cons.prems(2) by simp
  have srt: "sorted_wrt (<) (i # rest)" using Cons.prems(2) by simp
  have iA: "i \<in> A" using Cons.prems(5) lt by simp
  have after: "\<forall>j. i < j \<longrightarrow> (j \<in> A \<longleftrightarrow> j \<in> set rest)"
  proof (intro allI impI)
    fix j assume "i < j"
    then have "j \<in> A \<longleftrightarrow> j \<in> set (i # rest)" using Cons.prems(5) lt by simp
    then show "j \<in> A \<longleftrightarrow> j \<in> set rest" using \<open>i < j\<close> by auto
  qed
  show ?case
  proof (cases "i = prev + 1")
    case True
    have a: "start \<le> i" using Cons.prems(1) lt by simp
    have b: "\<forall>j. start \<le> j \<and> j \<le> i \<longrightarrow> j \<in> A"
    proof (intro allI impI)
      fix j assume "start \<le> j \<and> j \<le> i"
      then have "j \<le> prev \<or> j = i" using True by linarith
      then show "j \<in> A" using Cons.prems(3) iA \<open>start \<le> j \<and> j \<le> i\<close> by auto
    qed
    from Cons.IH[OF a srt b Cons.prems(4) after] True show ?thesis by simp
  next
    case False
    have notin: "prev + 1 \<notin> A"
    proof
      assume "prev + 1 \<in> A"
      then have "prev + 1 \<in> set (i # rest)" using Cons.prems(5) by simp
      then have "i \<le> prev + 1" using srt by auto
      then show False using lt False by simp
    qed
    have run1: "maximal_run A start prev"
      using Cons.prems(1,3,4) notin by (simp add: maximal_run_def)
    have im1: "i - 1 \<notin> A"
    proof
      assume "i - 1 \<in> A"
      moreover have "prev < i - 1" using lt False by simp
      ultimately have "i - 1 \<in> set (i # rest)" using Cons.prems(5) by blast
      then show False using srt by auto
    qed
    have single: "\<forall>j. i \<le> j \<and> j \<le> i \<longrightarrow> j \<in> A"
      using iA by auto
    have ih: "\<forall>c\<in>set (seg_loop i i rest). run_midpoint A c"
      by (rule Cons.IH[OF order_refl srt single im1 after])
    show ?thesis using False ih run1 by (auto simp: run_midpoint_def)
  qed
qed

lemma np_where_ge_sorted: "sorted_wrt (<) (np_where_ge proj t)"
  unfolding np_where_ge_def
  by (simp add: sorted_wrt_map sorted_wrt_filter)

lemma set_np_where_ge:
  "set (np_where_ge proj t) = {i. 0 \<le> i \<and> nat i < length proj \<and> t \<le> proj ! nat i}"
proof (intro set_eqI iffI)
  fix i assume "i \<in> set (np_where_ge proj t)"
  then show "i \<in> {i. 0 \<le> i \<and> nat i < length proj \<and> t \<le> proj ! nat i}"
    by (auto simp: np_where_ge_def)
next
  fix i assume a: "i \<in> {i. 0 \<le> i \<and> nat i < length proj \<and> t \<le> proj ! nat i}"
  then have "nat i \<in> set (filter (\<lambda>i. t \<le> proj ! i) [0..<length proj])" by simp
  then have "int (nat i) \<in> set (np_where_ge proj t)"
    unfolding np_where_ge_def by (simp only: set_map image_eqI)
  then show "i \<in> set (np_where_ge proj t)" using a by simp
qed

lemma segments_to_centers_sorted:
  "sorted_wrt (<) xs \<Longrightarrow> sorted_wrt (<) (segments_to_centers xs)"
  by (cases xs) (simp_all add: seg_loop_sorted)

lemma segments_to_centers_bounds:
  assumes "sorted_wrt (<) xs" and "\<forall>x\<in>set xs. lo \<le> x \<and> x \<le> hi"
  shows "\<forall>c\<in>set (segments_to_centers xs). lo \<le> c \<and> c \<le> hi"
proof (cases xs)
  case Nil
  then show ?thesis by simp
next
  case (Cons i rest)
  have b: "\<forall>c\<in>set (seg_loop i i rest). i \<le> c \<and> c \<le> last (i # rest)"
    using seg_loop_bounds[of i i rest] assms(1) Cons by simp
  have "last (i # rest) \<in> set xs" using Cons last_in_set[of "i # rest"] by simp
  then have "last (i # rest) \<le> hi" using assms(2) by blast
  moreover have "lo \<le> i" using assms(2) Cons by simp
  ultimately show ?thesis using b Cons by fastforce
qed

lemma segments_to_centers_runs:
  assumes "sorted_wrt (<) xs"
  shows "\<forall>c\<in>set (segments_to_centers xs). run_midpoint (set xs) c"
proof (cases xs)
  case Nil
  then show ?thesis by simp
next
  case (Cons i rest)
  have srt: "sorted_wrt (<) (i # rest)" using assms Cons by simp
  have a: "\<forall>j. i \<le> j \<and> j \<le> i \<longrightarrow> j \<in> set (i # rest)" by auto
  have b: "i - 1 \<notin> set (i # rest)" using srt by auto
  have c: "\<forall>j. i < j \<longrightarrow> (j \<in> set (i # rest) \<longleftrightarrow> j \<in> set rest)" by auto
  show ?thesis
    using seg_loop_runs[OF order_refl srt a b c] Cons by simp
qed

lemma line_positions_sorted: "sorted_wrt (<) (line_positions_from_mask m ax)"
  unfolding line_positions_from_mask_def Let_def
  by (rule segments_to_centers_sorted) (rule np_where_ge_sorted)

lemma length_proj_rows: "length (proj_rows m) = nrows m"
  by (simp add: proj_rows_def nrows_def)

lemma length_proj_cols: "length (proj_cols m) = ncols m"
  by (simp add: proj_cols_def)

lemma set_active_positions:
  "set (np_where_ge (case ax of AxisH \<Rightarrow> proj_rows m | AxisV \<Rightarrow> proj_cols m)
          (case ax of AxisH \<Rightarrow> max 10 (int_mul_0_35 (ncols m))
                    | AxisV \<Rightarrow> max 10 (int_mul_0_35 (nrows m))))
   = active_positions m ax"
  by (cases ax) (simp_all add: set_np_where_ge active_positions_def
      length_proj_rows length_proj_cols)

lemma line_positions_runs:
  "\<forall>c\<in>set (line_positions_from_mask m ax). run_midpoint (active_positions m ax) c"
  using segments_to_centers_runs[OF np_where_ge_sorted]
  unfolding line_positions_from_mask_def Let_def set_active_positions[symmetric]
  by blast

lemma line_positions_bounds:
  "\<forall>c\<in>set (line_positions_from_mask m ax).
     0 \<le> c \<and> c \<le> int (case ax of AxisH \<Rightarrow> nrows m | AxisV \<Rightarrow> ncols m) - 1"
proof -
  let ?proj = "case ax of AxisH \<Rightarrow> proj_rows m | AxisV \<Rightarrow> proj_cols m"
  let ?t = "case ax of AxisH \<Rightarrow> max 10 (int_mul_0_35 (ncols m))
                    | AxisV \<Rightarrow> max 10 (int_mul_0_35 (nrows m))"
  have len: "length ?proj = (case ax of AxisH \<Rightarrow> nrows m | AxisV \<Rightarrow> ncols m)"
    by (cases ax) (simp_all add: length_proj_rows length_proj_cols)
  have "\<forall>x\<in>set (np_where_ge ?proj ?t). 0 \<le> x \<and> x \<le> int (length ?proj) - 1"
    by (auto simp: set_np_where_ge)
  from segments_to_centers_bounds[OF np_where_ge_sorted this]
  show ?thesis unfolding line_positions_from_mask_def Let_def len .
qed

lemma keeps_shape_dims:
  assumes "map length r = map length m"
  shows "nrows r = nrows m" and "ncols r = ncols m"
proof -
  show "nrows r = nrows m" using assms map_eq_imp_length_eq unfolding nrows_def by blast
  show "ncols r = ncols m" using assms unfolding ncols_def
    by (cases r; cases m) simp_all
qed

lemma cv2_keeps_shapeD:
  assumes "cv2_keeps_shape cv2"
  shows "GaussianBlur cv2 m k = Inr r \<Longrightarrow> map length r = map length m"
    and "threshold_otsu_inv cv2 m = Inr r \<Longrightarrow> map length r = map length m"
    and "erode cv2 m k = Inr r \<Longrightarrow> map length r = map length m"
    and "dilate cv2 m k = Inr r \<Longrightarrow> map length r = map length m"
    and "morphologyEx_open cv2 m k = Inr r \<Longrightarrow> map length r = map length m"
    and "drawContours cv2 m c = Inr r \<Longrightarrow> map length r = map length m"
  using assms unfolding cv2_keeps_shape_def keeps_shape_def by blast+

lemma threshold_binary_shape:
  assumes "cv2_keeps_shape cv2" and "threshold_binary cv2 gray = Inr bw"
  shows "map length bw = map length gray"
proof -
  obtain blur where b: "GaussianBlur cv2 gray (3, 3) = Inr blur"
    and t: "threshold_otsu_inv cv2 blur = Inr bw"
    using assms(2) unfolding threshold_binary_def by (simp split: sum.splits)
  show ?thesis
    using cv2_keeps_shapeD(1)[OF assms(1) b] cv2_keeps_shapeD(2)[OF assms(1) t] by simp
qed

lemma extract_lines_shape:
  assumes "cv2_keeps_shape cv2" and "extract_lines cv2 bw ax = Inr lm"
  shows "map length lm = map length bw"
proof -
  obtain k eroded where e: "erode cv2 bw k = Inr eroded"
    and d: "dilate cv2 eroded k = Inr lm"
    using assms(2) unfolding extract_lines_def Let_def by (simp split: sum.splits)
  show ?thesis
    using cv2_keeps_shapeD(3)[OF assms(1) e] cv2_keeps_shapeD(4)[OF assms(1) d] by simp
qed

lemma upt10: "[0..<10] = [0,1,2,3,4,5,6,7,8,9]"
  by (simp add: upt_rec)

lemma ex_bw_eq: "ex_bw =
  [[0,255,0,0,255,0,0,255,0,0],
   [255,255,255,255,255,255,255,255,255,255],
   [0,255,0,0,255,0,0,255,0,0],
   [0,255,0,0,255,0,0,255,0,0],
   [255,255,255,255,255,255,255,255,255,255],
   [0,255,0,0,255,0,0,255,0,0],
   [0,255,0,0,255,0,0,255,0,0],
   [255,255,255,255,255,255,255,255,255,255],
   [0,255,0,0,255,0,0,255,0,0],
   [0,255,0,0,255,0,0,255,0,0]]"
  by (simp add: ex_bw_def ex_lines_def upt10)

lemma ex_thr: "threshold_binary ex_cv2 ex_gray = Inr ex_bw"
  by (simp add: threshold_binary_def ex_cv2_def ex_gray_def ex_bw_eq)

lemma ex_h: "extract_lines ex_cv2 ex_bw AxisH = Inr (open_rows ex_bw)"
  by (simp add: extract_lines_def ex_cv2_def Let_def ncols_def nrows_def ex_bw_eq)

lemma ex_v: "extract_lines ex_cv2 ex_bw AxisV = Inr (open_cols ex_bw)"
  by (simp add: extract_lines_def ex_cv2_def Let_def ncols_def nrows_def ex_bw_eq)

lemma t10: "int_mul_0_35 10 = 3"
  by (simp add: int_mul_0_35_def py_int_mul_def round53_def nbits.simps Let_def)

lemma ex_h_dims: "nrows (open_rows ex_bw) = 10" "ncols (open_rows ex_bw) = 10"
  by (simp_all add: open_rows_def ex_bw_eq nrows_def ncols_def)

lemma ex_v_dims: "nrows (open_cols ex_bw) = 10" "ncols (open_cols ex_bw) = 10"
  by (simp_all add: open_cols_def ex_bw_eq nrows_def ncols_def)

lemma ex_h_proj: "proj_rows (open_rows ex_bw) = [0, 10, 0, 0, 10, 0, 0, 10, 0, 0]"
  by (simp add: open_rows_def ex_bw_eq proj_rows_def)

lemma ex_v_proj: "proj_cols (open_cols ex_bw) = [0, 10, 0, 0, 10, 0, 0, 10, 0, 0]"
  by (simp add: open_cols_def ex_bw_eq proj_cols_def ncols_def upt10)

lemma where10: "np_where_ge [0, 10, 0, 0, 10, 0, 0, 10, 0, 0] 10 = [1, 4, 7]"
  by (simp add: np_where_ge_def upt10)

lemma ex_yl: "line_positions_from_mask (open_rows ex_bw) AxisH = [1, 4, 7]"
  by (simp add: line_positions_from_mask_def Let_def ex_h_dims ex_h_proj t10 where10)

lemma ex_xl: "line_positions_from_mask (open_cols ex_bw) AxisV = [1, 4, 7]"
  by (simp add: line_positions_from_mask_def Let_def ex_v_dims ex_v_proj t10 where10)

lemma ex_keeps: "cv2_keeps_shape ex_cv2"
  by (simp add: cv2_keeps_shape_def keeps_shape_def ex_cv2_def open_rows_def open_cols_def)

lemma ex_or: "bitwise_or (open_rows ex_bw) (open_cols ex_bw) = Inr ex_bw"
  by (simp add: bitwise_or_def open_rows_def open_cols_def ex_bw_eq upt10)

lemma ex_and: "bitwise_and (open_rows ex_bw) (open_cols ex_bw) = Inr ex_cross"
  by (simp add: bitwise_and_def open_rows_def open_cols_def ex_bw_eq ex_cross_def
      ex_lines_def upt10)

lemma ex_cross_count: "count_nonzero ex_cross = 9"
  by (simp add: ex_cross_def ex_lines_def upt10 count_nonzero_def)

lemma ex_ratio: "line_ratio ex_bw ex_bw = 51 / 100"
  by (simp add: line_ratio_def count_nonzero_def ex_bw_eq nrows_def ncols_def)

lemma detect_table_body_InrE:
  assumes "detect_table_body cv2 clk gray fl = Inr (r, fl')"
  obtains bw hm vm combined isect where
    "threshold_binary cv2 gray = Inr bw" "\<not> clk 1"
    "extract_lines cv2 bw AxisH = Inr hm" "extract_lines cv2 bw AxisV = Inr vm"
    "bitwise_or hm vm = Inr combined" "bitwise_and hm vm = Inr isect"
    "x_lines r = line_positions_from_mask vm AxisV"
    "y_lines r = line_positions_from_mask hm AxisH"
    "line_pixel_ratio r = clamp01 (line_ratio bw combined * 10)"
    "intersections_count r = int (count_nonzero isect)"
    "grid_detected r \<longleftrightarrow> length (x_lines r) \<ge> 3 \<and> length (y_lines r) \<ge> 3"
    "detected r \<longleftrightarrow> (length (x_lines r) \<ge> 3 \<and> length (y_lines r) \<ge> 3) \<and>
        (line_ratio bw combined \<ge> 8 / 1000 \<or> intersections_count r \<ge> 200)"
  using assms unfolding detect_table_body_def Let_def
  by (auto split: sum.splits if_splits)

lemma detect_table_cases:
  obtains (empty) "fst (detect_table cv clk gray) = empty_table_result"
  | (ok) cv2 fl r fl' where "cv = Inr cv2" "\<not> clk 0"
      "detect_table_body cv2 clk gray fl = Inr (r, fl')"
      "fst (detect_table cv clk gray) = r"
proof (cases "clk 0")
  case True
  then have "fst (detect_table cv clk gray) = empty_table_result"
    by (simp add: detect_table_def)
  then show ?thesis by (rule empty)
next
  case False
  show ?thesis
  proof (cases cv)
    case (Inl err)
    then have "fst (detect_table cv clk gray) = empty_table_result"
      using False by (simp add: detect_table_def)
    then show ?thesis by (rule empty)
  next
    case (Inr cv2)
    let ?fl = "[''table_detected'' \<mapsto> JBool False, ''grid_detected'' \<mapsto> JBool False]"
    show ?thesis
    proof (cases "detect_table_body cv2 clk gray ?fl")
      case (Inl ef)
      then have "fst (detect_table cv clk gray) = empty_table_result"
        using False Inr by (simp add: detect_table_def split: prod.splits exn.splits)
      then show ?thesis by (rule empty)
    next
      case r: (Inr res)
      obtain r fl' where res: "res = (r, fl')" by (cases res)
      have "fst (detect_table cv clk gray) = r"
        using False Inr r res by (simp add: detect_table_def)
      with Inr False r res show ?thesis using ok by blast
    qed
  qed
qed

lemma table_run_result:
  assumes "table_run cv clk gray bw hm vm combined isect"
  shows "fst (detect_table cv clk gray) =
     \<lparr>detected = ((length (line_positions_from_mask vm AxisV) \<ge> 3 \<and>
                    length (line_positions_from_mask hm AxisH) \<ge> 3) \<and>
                   (line_ratio bw combined \<ge> 8 / 1000 \<or> int (count_nonzero isect) \<ge> 200)),
      grid_detected = (length (line_positions_from_mask vm AxisV) \<ge> 3 \<and>
                       length (line_positions_from_mask hm AxisH) \<ge> 3), method = ''grid_lines_v1'',
      line_pixel_ratio = clamp01 (line_ratio bw combined * 10),
      intersections_count = int (count_nonzero isect),
      x_lines = line_positions_from_mask vm AxisV,
      y_lines = line_positions_from_mask hm AxisH\<rparr>"
  using assms unfolding table_run_def detect_table_def detect_table_body_def Let_def
  by auto

lemma ex_table_run:
  "table_run (Inr ex_cv2) never_expired ex_gray ex_bw (open_rows ex_bw) (open_cols ex_bw)
     ex_bw ex_cross"
  by (simp add: table_run_def never_expired_def ex_thr ex_h ex_v ex_or ex_and)

text \<open>
  C10. The line positions returned by \<open>detect_table\<close> are strictly increasing and lie
  within the image (columns for \<open>x_lines\<close>, rows for \<open>y_lines\<close>), and each of them is the
  integer midpoint of a maximal run of consecutive active projection indices.
\<close>

theorem detect_table_line_positions:
  assumes "\<forall>cv2. cv = Inr cv2 \<longrightarrow> cv2_keeps_shape cv2"
  shows "sorted_wrt (<) (x_lines (fst (detect_table cv clk gray))) \<and>
         sorted_wrt (<) (y_lines (fst (detect_table cv clk gray))) \<and>
         (\<forall>x\<in>set (x_lines (fst (detect_table cv clk gray))). 0 \<le> x \<and> x \<le> int (ncols gray) - 1) \<and>
         (\<forall>y\<in>set (y_lines (fst (detect_table cv clk gray))). 0 \<le> y \<and> y \<le> int (nrows gray) - 1) \<and>
         (\<forall>cv2 bw hm vm.
            cv = Inr cv2 \<and> threshold_binary cv2 gray = Inr bw \<and>
            extract_lines cv2 bw AxisH = Inr hm \<and> extract_lines cv2 bw AxisV = Inr vm \<longrightarrow>
            (\<forall>x\<in>set (x_lines (fst (detect_table cv clk gray))).
               run_midpoint (active_positions vm AxisV) x) \<and>
            (\<forall>y\<in>set (y_lines (fst (detect_table cv clk gray))).
               run_midpoint (active_positions hm AxisH) y))"
proof (cases rule: detect_table_cases[of cv clk gray])
  case empty
  show ?thesis unfolding empty by (simp add: empty_table_result_def)
next
  case (ok cv2 fl r fl')
  from ok(3) obtain bw hm vm where
    thr: "threshold_binary cv2 gray = Inr bw" and
    h: "extract_lines cv2 bw AxisH = Inr hm" and
    v: "extract_lines cv2 bw AxisV = Inr vm" and
    xl: "x_lines r = line_positions_from_mask vm AxisV" and
    yl: "y_lines r = line_positions_from_mask hm AxisH"
    by (rule detect_table_body_InrE)
  have ks: "cv2_keeps_shape cv2" using assms ok(1) by simp
  have sbw: "map length bw = map length gray" by (rule threshold_binary_shape[OF ks thr])
  have shm: "map length hm = map length gray"
    using extract_lines_shape[OF ks h] sbw by simp
  have svm: "map length vm = map length gray"
    using extract_lines_shape[OF ks v] sbw by simp
  have 1: "sorted_wrt (<) (x_lines r)" "sorted_wrt (<) (y_lines r)"
    by (simp_all add: xl yl line_positions_sorted)
  have 2: "\<forall>x\<in>set (x_lines r). 0 \<le> x \<and> x \<le> int (ncols gray) - 1"
    using line_positions_bounds[of vm AxisV] keeps_shape_dims(2)[OF svm] by (simp add: xl)
  have 3: "\<forall>y\<in>set (y_lines r). 0 \<le> y \<and> y \<le> int (nrows gray) - 1"
    using line_positions_bounds[of hm AxisH] keeps_shape_dims(1)[OF shm] by (simp add: yl)
  have 4: "\<forall>x\<in>set (x_lines r). run_midpoint (active_positions vm AxisV) x"
    by (simp add: xl line_positions_runs)
  have 5: "\<forall>y\<in>set (y_lines r). run_midpoint (active_positions hm AxisH) y"
    by (simp add: yl line_positions_runs)
  show ?thesis
    unfolding ok(4) using 1 2 3 4 5 ok(1) thr h v by auto
qed

theorem detect_table_line_positions_witness:
  "cv2_keeps_shape ex_cv2 \<and>
   threshold_binary ex_cv2 ex_gray = Inr ex_bw \<and>
   extract_lines ex_cv2 ex_bw AxisH = Inr (open_rows ex_bw) \<and>
   extract_lines ex_cv2 ex_bw AxisV = Inr (open_cols ex_bw) \<and>
   x_lines (fst (detect_table (Inr ex_cv2) never_expired ex_gray)) = [1, 4, 7] \<and>
   y_lines (fst (detect_table (Inr ex_cv2) never_expired ex_gray)) = [1, 4, 7] \<and>
   ncols ex_gray = 10 \<and> nrows ex_gray = 10 \<and>
   run_midpoint (active_positions (open_cols ex_bw) AxisV) 1 \<and>
   run_midpoint (active_positions (open_cols ex_bw) AxisV) 4 \<and>
   run_midpoint (active_positions (open_cols ex_bw) AxisV) 7 \<and>
   run_midpoint (active_positions (open_rows ex_bw) AxisH) 1 \<and>
   run_midpoint (active_positions (open_rows ex_bw) AxisH) 4 \<and>
   run_midpoint (active_positions (open_rows ex_bw) AxisH) 7"
proof -
  note tr = ex_table_run
  have xl: "x_lines (fst (detect_table (Inr ex_cv2) never_expired ex_gray)) = [1, 4, 7]"
    and yl: "y_lines (fst (detect_table (Inr ex_cv2) never_expired ex_gray)) = [1, 4, 7]"
    by (simp_all add: table_run_result[OF tr] ex_xl ex_yl)
  have dims: "ncols ex_gray = 10" "nrows ex_gray = 10"
    by (simp_all add: ex_gray_def ex_bw_eq ncols_def nrows_def)
  have hyp: "\<forall>cv2. (Inr ex_cv2 :: string + cv2_lib) = Inr cv2 \<longrightarrow> cv2_keeps_shape cv2"
    using ex_keeps by simp
  show ?thesis
    using detect_table_line_positions[OF hyp, of never_expired ex_gray]
    unfolding xl yl
    using ex_keeps ex_thr ex_h ex_v dims by (simp (no_asm_use)) blast
qed




lemma ex_detect:
  "fst (detect_table (Inr ex_cv2) never_expired ex_gray) =
     \<lparr>detected = True, grid_detected = True, method = ''grid_lines_v1'',
      line_pixel_ratio = 1, intersections_count = 9,
      x_lines = [1, 4, 7], y_lines = [1, 4, 7]\<rparr>"
  by (simp add: table_run_result[OF ex_table_run] ex_xl ex_yl ex_ratio ex_cross_count
      clamp01_def)

text \<open>
  C7. When \<open>detect_table\<close> completes without deadline expiry or error, \<open>detected\<close> holds
  exactly when both line lists have at least three entries and either the line ratio is
  at least 0.008 or there are at least 200 intersections, and \<open>grid_detected\<close> holds
  exactly when both line lists have at least three entries.
\<close>

theorem detect_table_decision:
  assumes "table_run cv clk gray bw hm vm combined isect"
  shows "(detected (fst (detect_table cv clk gray)) \<longleftrightarrow>
            (3 \<le> length (x_lines (fst (detect_table cv clk gray))) \<and>
             3 \<le> length (y_lines (fst (detect_table cv clk gray)))) \<and>
            (8 / 1000 \<le> line_ratio bw combined \<or> 200 \<le> count_nonzero isect)) \<and>
         (grid_detected (fst (detect_table cv clk gray)) \<longleftrightarrow>
            3 \<le> length (x_lines (fst (detect_table cv clk gray))) \<and>
            3 \<le> length (y_lines (fst (detect_table cv clk gray)))) \<and>
         intersections_count (fst (detect_table cv clk gray)) = int (count_nonzero isect) \<and>
         line_ratio bw combined =
           real (count_nonzero combined) / real (max 1 (nrows bw * ncols bw))"
  unfolding table_run_result[OF assms]
  by (simp add: line_ratio_def)

theorem detect_table_decision_witness:
  "table_run (Inr ex_cv2) never_expired ex_gray ex_bw (open_rows ex_bw) (open_cols ex_bw)
     ex_bw ex_cross \<and>
   detected (fst (detect_table (Inr ex_cv2) never_expired ex_gray)) \<and>
   grid_detected (fst (detect_table (Inr ex_cv2) never_expired ex_gray)) \<and>
   length (x_lines (fst (detect_table (Inr ex_cv2) never_expired ex_gray))) = 3 \<and>
   length (y_lines (fst (detect_table (Inr ex_cv2) never_expired ex_gray))) = 3 \<and>
   line_ratio ex_bw ex_bw = 51 / 100 \<and> count_nonzero ex_cross = 9"
proof -
  have len: "length (x_lines (fst (detect_table (Inr ex_cv2) never_expired ex_gray))) = 3"
    "length (y_lines (fst (detect_table (Inr ex_cv2) never_expired ex_gray))) = 3"
    by (simp_all add: ex_detect)
  show ?thesis
    using detect_table_decision[OF ex_table_run] len ex_ratio ex_cross_count ex_table_run
    by simp
qed




lemma cells_loop_length:
  "cells_loop clk ocr sz xl t b cs (k, row, cf, fl) = Inr (k', row', cf', fl') \<Longrightarrow>
   length row \<le> length row' \<and> length row' \<le> length row + length cs \<and> k \<le> k' \<and>
   (length row' < length row + length cs \<longrightarrow> (\<exists>j. j < k' \<and> clk j))"
proof (induction cs arbitrary: k row cf fl)
  case Nil
  then show ?case by simp
next
  case (Cons c cs)
  show ?case
  proof (cases "clk k")
    case True
    with Cons.prems show ?thesis by auto
  next
    case False
    let ?box = "crop_cell sz (xl ! c + 2) (t + 2) (xl ! (c + 1) - 2) (b - 2)"
    from Cons.prems False obtain cell_txt f where oc: "ocr ?box = Inr (cell_txt, f)"
      and rec: "cells_loop clk ocr sz xl t b cs
                  (Suc k, row @ [if cell_txt \<noteq> [] then cell_txt else []], cf ++ f, fl)
                = Inr (k', row', cf', fl')"
      by (auto simp: Let_def split: sum.splits)
    from Cons.IH[OF rec] show ?thesis by auto
  qed
qed

lemma rows_loop_expired:
  "clk k \<Longrightarrow> rows_loop clk ocr sz xl yl mc rs (k, rows, cf, fl) = Inr (k', rows', cf', fl')
   \<Longrightarrow> rows' = rows"
  by (cases rs) auto

lemma rows_loop_rows:
  assumes "rows_loop clk ocr sz xl yl mc rs (k, rows, cf, fl) = Inr (k', rows', cf', fl')"
  shows "\<exists>new. rows' = rows @ new \<and>
           (\<forall>r\<in>set new. length r \<le> mc) \<and>
           (mono_clock clk \<longrightarrow> (\<forall>r\<in>set (butlast new). length r = mc)) \<and>
           ((\<exists>r\<in>set new. length r < mc) \<longrightarrow> (\<exists>j. clk j))"
  using assms
proof (induction rs arbitrary: k rows cf fl)
  case Nil
  then have "rows' = rows @ []" by simp
  then show ?case by (intro exI[of _ "[]"]) simp
next
  case (Cons ri rs)
  show ?case
  proof (cases "clk k")
    case True
    with Cons.prems have "rows' = rows @ []" by auto
    then show ?thesis by (intro exI[of _ "[]"]) simp
  next
    case False
    from Cons.prems False obtain k1 row cf1 fl1 where
      c: "cells_loop clk ocr sz xl (yl ! ri) (yl ! (ri + 1)) [0..<mc] (Suc k, [], cf, fl)
            = Inr (k1, row, cf1, fl1)"
      and rec: "rows_loop clk ocr sz xl yl mc rs (k1, rows @ [row], cf1, fl1)
                  = Inr (k', rows', cf', fl')"
      by (auto simp: Let_def split: sum.splits)
    from cells_loop_length[OF c] have
      len: "length row \<le> mc" and part: "length row < mc \<longrightarrow> (\<exists>j. j < k1 \<and> clk j)"
      by auto
    from Cons.IH[OF rec] obtain new where
      n1: "rows' = (rows @ [row]) @ new" and
      n2: "\<forall>r\<in>set new. length r \<le> mc" and
      n3: "mono_clock clk \<longrightarrow> (\<forall>r\<in>set (butlast new). length r = mc)" and
      n4: "(\<exists>r\<in>set new. length r < mc) \<longrightarrow> (\<exists>j. clk j)"
      by blast
    have a: "rows' = rows @ (row # new)" using n1 by simp
    have b: "\<forall>r\<in>set (row # new). length r \<le> mc" using n2 len by simp
    have c': "mono_clock clk \<longrightarrow> (\<forall>r\<in>set (butlast (row # new)). length r = mc)"
    proof
      assume m: "mono_clock clk"
      show "\<forall>r\<in>set (butlast (row # new)). length r = mc"
      proof (cases "length row < mc")
        case True
        then obtain j where "j < k1" "clk j" using part by blast
        then have "clk k1" using m unfolding mono_clock_def by (meson less_imp_le)
        from rows_loop_expired[OF this rec] n1 have "new = []" by simp
        then show ?thesis by simp
      next
        case False
        then have "length row = mc" using len by simp
        then show ?thesis using n3 m by (cases new) auto
      qed
    qed
    have d: "(\<exists>r\<in>set (row # new). length r < mc) \<longrightarrow> (\<exists>j. clk j)"
      using n4 part by auto
    from a b c' d show ?thesis by blast
  qed
qed

lemma extract_table_grid_cases:
  assumes "grid_slice_path detect clk"
  shows "table_rows (fst (extract_table sz detect blocks clk ocr el)) = [] \<or>
         (\<exists>fl k' cf' fl'.
            rows_loop clk ocr sz (cap_lines (x_lines detect) 60) (cap_lines (y_lines detect) 80)
              (min (length (cap_lines (x_lines detect) 60) - 1) 20)
              [0..<min (length (cap_lines (y_lines detect) 80) - 1) 40]
              (1, [], Map.empty, fl)
            = Inr (k', table_rows (fst (extract_table sz detect blocks clk ocr el)), cf', fl'))"
  using assms
  unfolding grid_slice_path_def extract_table_def extract_table_try_def
    extract_table_handler_def Let_def
  by (auto split: sum.splits prod.splits)

lemma upt_2: "[0..<2] = [0, 1]"
  by (simp add: upt_rec)

lemma ex_cap_lines: "cap_lines [0, 10, 20] 60 = [0, 10, 20]" "cap_lines [0, 10, 20] 80 = [0, 10, 20]"
  by (simp_all add: cap_lines_def)

lemma ex_grid_path: "grid_slice_path ex_grid_detect expires_at_6"
  "grid_slice_path ex_grid_detect never_expired"
  by (simp_all add: grid_slice_path_def ex_grid_detect_def ex_cap_lines expires_at_6_def
      never_expired_def)

lemma ex_grid_rows_expired:
  "table_rows (fst (extract_table (30, 30) ex_grid_detect None expires_at_6 ocr_X 0)) =
     [[''X'', ''X''], [''X'']]"
  by (simp add: extract_table_def extract_table_try_def ex_grid_detect_def ex_cap_lines
      expires_at_6_def ocr_X_def upt_2 Let_def)

lemma ex_grid_rows_full:
  "table_rows (fst (extract_table (30, 30) ex_grid_detect None never_expired ocr_X 0)) =
     [[''X'', ''X''], [''X'', ''X'']]"
  by (simp add: extract_table_def extract_table_try_def ex_grid_detect_def ex_cap_lines
      never_expired_def ocr_X_def upt_2 Let_def)

lemma ex_mono: "mono_clock expires_at_6" "mono_clock never_expired"
  by (simp_all add: mono_clock_def expires_at_6_def never_expired_def)

text \<open>
  C4, as stated: on the grid-slice path the rows have equal lengths, also when the
  deadline fires during the extraction. With the deadline expiring before the last cell
  of the second row, the rows are \<open>[X, X]\<close> and \<open>[X]\<close>.
\<close>

theorem extract_table_rows_counterexample:
  "grid_slice_path ex_grid_detect expires_at_6 \<and> mono_clock expires_at_6 \<and>
   table_rows (fst (extract_table (30, 30) ex_grid_detect None expires_at_6 ocr_X 0)) =
     [[''X'', ''X''], [''X'']] \<and>
   \<not> equal_length_rows
       (table_rows (fst (extract_table (30, 30) ex_grid_detect None expires_at_6 ocr_X 0)))"
  unfolding ex_grid_rows_expired
  using ex_grid_path(1) ex_mono(1) by (simp add: equal_length_rows_def)

text \<open>
  C4, amended: on the grid-slice path no row is longer than
  \<open>max_cols = min(len(x_lines) - 1, 20)\<close>, under a monotonic clock every row but the last
  has exactly \<open>max_cols\<close> cells, and the rows have equal lengths unless the deadline fires.
  That every cell is a string is the type of the rows.
\<close>

theorem extract_table_grid_rows:
  assumes "grid_slice_path detect clk"
  shows "(\<forall>r\<in>set (table_rows (fst (extract_table sz detect blocks clk ocr el))).
            length r \<le> min (length (cap_lines (x_lines detect) 60) - 1) 20) \<and>
         (mono_clock clk \<longrightarrow>
            (\<forall>r\<in>set (butlast (table_rows (fst (extract_table sz detect blocks clk ocr el)))).
               length r = min (length (cap_lines (x_lines detect) 60) - 1) 20)) \<and>
         ((\<forall>k. \<not> clk k) \<longrightarrow>
            (\<forall>r\<in>set (table_rows (fst (extract_table sz detect blocks clk ocr el))).
               length r = min (length (cap_lines (x_lines detect) 60) - 1) 20) \<and>
            equal_length_rows (table_rows (fst (extract_table sz detect blocks clk ocr el))))"
proof -
  let ?rows = "table_rows (fst (extract_table sz detect blocks clk ocr el))"
  let ?mc = "min (length (cap_lines (x_lines detect) 60) - 1) 20"
  have main: "(\<forall>r\<in>set ?rows. length r \<le> ?mc) \<and>
        (mono_clock clk \<longrightarrow> (\<forall>r\<in>set (butlast ?rows). length r = ?mc)) \<and>
        ((\<exists>r\<in>set ?rows. length r < ?mc) \<longrightarrow> (\<exists>j. clk j))"
  proof (rule disjE[OF extract_table_grid_cases[OF assms, of sz blocks ocr el]])
    assume "?rows = []"
    then show ?thesis by simp
  next
    assume "\<exists>fl k' cf' fl'.
            rows_loop clk ocr sz (cap_lines (x_lines detect) 60) (cap_lines (y_lines detect) 80)
              ?mc [0..<min (length (cap_lines (y_lines detect) 80) - 1) 40]
              (1, [], Map.empty, fl)
            = Inr (k', ?rows, cf', fl')"
    then obtain fl k' cf' fl' where
      "rows_loop clk ocr sz (cap_lines (x_lines detect) 60) (cap_lines (y_lines detect) 80)
              ?mc [0..<min (length (cap_lines (y_lines detect) 80) - 1) 40]
              (1, [], Map.empty, fl)
            = Inr (k', ?rows, cf', fl')" by blast
    from rows_loop_rows[OF this] show ?thesis by simp
  qed
  have full: "(\<forall>k. \<not> clk k) \<longrightarrow> (\<forall>r\<in>set ?rows. length r = ?mc)"
    using main by (meson le_neq_implies_less)
  then have "(\<forall>k. \<not> clk k) \<longrightarrow> equal_length_rows ?rows"
    by (simp add: equal_length_rows_def)
  with main full show ?thesis by blast
qed

theorem extract_table_grid_rows_witness:
  "grid_slice_path ex_grid_detect expires_at_6 \<and> mono_clock expires_at_6 \<and>
   table_rows (fst (extract_table (30, 30) ex_grid_detect None expires_at_6 ocr_X 0)) =
     [[''X'', ''X''], [''X'']] \<and>
   min (length (cap_lines (x_lines ex_grid_detect) 60) - 1) 20 = 2 \<and>
   length [''X'', ''X''] = min (length (cap_lines (x_lines ex_grid_detect) 60) - 1) 20 \<and>
   grid_slice_path ex_grid_detect never_expired \<and>
   table_rows (fst (extract_table (30, 30) ex_grid_detect None never_expired ocr_X 0)) =
     [[''X'', ''X''], [''X'', ''X'']] \<and>
   equal_length_rows
     (table_rows (fst (extract_table (30, 30) ex_grid_detect None never_expired ocr_X 0)))"
proof -
  have mc: "min (length (cap_lines (x_lines ex_grid_detect) 60) - 1) 20 = 2"
    by (simp add: ex_grid_detect_def ex_cap_lines)
  have a: "length [''X'', ''X''] = min (length (cap_lines (x_lines ex_grid_detect) 60) - 1) 20"
    using extract_table_grid_rows[OF ex_grid_path(1), of "(30, 30)" None ocr_X 0] ex_mono(1)
    unfolding ex_grid_rows_expired by simp
  have b: "equal_length_rows
     (table_rows (fst (extract_table (30, 30) ex_grid_detect None never_expired ocr_X 0)))"
    using extract_table_grid_rows[OF ex_grid_path(2), of "(30, 30)" None ocr_X 0]
    by (simp add: never_expired_def)
  show ?thesis
    using a b mc ex_grid_path ex_mono(1) ex_grid_rows_expired ex_grid_rows_full by simp
qed

lemma map2_shape:
  "map length a = map length b \<Longrightarrow> map length (map2 (map2 f) a b) = map length a"
proof (induction a arbitrary: b)
  case Nil
  then show ?case by simp
next
  case (Cons r a)
  then obtain q b' where b: "b = q # b'" by (cases b) auto
  with Cons.prems have "length r = length q" "map length a = map length b'" by simp_all
  with Cons.IH[of b'] b show ?case by simp
qed

lemma cv2_subtract_shape:
  assumes "cv2_subtract a b = Inr c"
  shows "map length c = map length a"
proof -
  from assms have eq: "map length a = map length b"
    and c: "c = map2 (map2 (\<lambda>p q. if q \<le> p then p - q else 0)) a b"
    by (auto simp: cv2_subtract_def split: if_splits)
  show ?thesis unfolding c by (rule map2_shape[OF eq])
qed

lemma subtract_thin_axis_lines_shape:
  "subtract_thin_axis_lines cv2 bw w h = (bw1, fl) \<Longrightarrow> map length bw1 = map length bw"
  unfolding subtract_thin_axis_lines_def Let_def
  by (auto split: sum.splits prod.splits dest: cv2_subtract_shape)

lemma denoise_open_shape:
  "cv2_keeps_shape cv2 \<Longrightarrow> denoise_open cv2 bw w h fl = (bw2, fl2) \<Longrightarrow>
   map length bw2 = map length bw"
  unfolding denoise_open_def Let_def
  by (auto split: sum.splits dest: cv2_keeps_shapeD(5))

lemma detect_bar_chart_run:
  assumes "\<not> clk 0" "\<not> clk 1" "threshold_binary cv2 gray = Inr bw0"
  shows "\<exists>bw2 fl. (cv2_keeps_shape cv2 \<longrightarrow> map length bw2 = map length gray) \<and>
           detect_bar_chart (Inr cv2) clk gray =
             (case findContours cv2 bw2 of
                Inl e \<Rightarrow> detect_bar_chart_error e fl
              | Inr cs \<Rightarrow>
                  bars_from_rects (map (boundingRect cv2) cs) (ncols gray) (nrows gray) fl)"
proof -
  obtain bw1 lf where s: "subtract_thin_axis_lines cv2 bw0 (ncols gray) (nrows gray) = (bw1, lf)"
    by (cases "subtract_thin_axis_lines cv2 bw0 (ncols gray) (nrows gray)")
  let ?fl = "[''chart_detected'' \<mapsto> JBool False, ''chart_type_bar'' \<mapsto> JBool False] ++ lf"
  obtain bw2 fl2 where d: "denoise_open cv2 bw1 (ncols gray) (nrows gray) ?fl = (bw2, fl2)"
    by (cases "denoise_open cv2 bw1 (ncols gray) (nrows gray) ?fl")
  have shape: "cv2_keeps_shape cv2 \<longrightarrow> map length bw2 = map length gray"
  proof
    assume ks: "cv2_keeps_shape cv2"
    show "map length bw2 = map length gray"
      using denoise_open_shape[OF ks d] subtract_thin_axis_lines_shape[OF s]
        threshold_binary_shape[OF ks assms(3)] by simp
  qed
  have "detect_bar_chart (Inr cv2) clk gray =
             (case findContours cv2 bw2 of
                Inl e \<Rightarrow> detect_bar_chart_error e fl2
              | Inr cs \<Rightarrow>
                  bars_from_rects (map (boundingRect cv2) cs) (ncols gray) (nrows gray) fl2)"
    using assms s d by (simp add: detect_bar_chart_def Let_def)
  with shape show ?thesis by blast
qed

lemma detect_bar_chart_cases:
  obtains (empty) "fst (detect_bar_chart cv clk gray) = empty_bar_result"
  | (ok) cv2 bw2 cs fl where "cv = Inr cv2"
      "cv2_keeps_shape cv2 \<longrightarrow> map length bw2 = map length gray"
      "findContours cv2 bw2 = Inr cs"
      "detect_bar_chart cv clk gray =
         bars_from_rects (map (boundingRect cv2) cs) (ncols gray) (nrows gray) fl"
proof (cases "clk 0")
  case True
  then have "fst (detect_bar_chart cv clk gray) = empty_bar_result"
    by (simp add: detect_bar_chart_def)
  then show ?thesis by (rule empty)
next
  case c0: False
  show ?thesis
  proof (cases cv)
    case (Inl err)
    then have "fst (detect_bar_chart cv clk gray) = empty_bar_result"
      using c0 by (simp add: detect_bar_chart_def)
    then show ?thesis by (rule empty)
  next
    case (Inr cv2)
    show ?thesis
    proof (cases "threshold_binary cv2 gray")
      case (Inl e)
      then have "fst (detect_bar_chart cv clk gray) = empty_bar_result"
        using c0 Inr by (simp add: detect_bar_chart_def detect_bar_chart_error_def)
      then show ?thesis by (rule empty)
    next
      case thr: (Inr bw0)
      show ?thesis
      proof (cases "clk 1")
        case True
        then have "fst (detect_bar_chart cv clk gray) = empty_bar_result"
          using c0 Inr thr by (simp add: detect_bar_chart_def Let_def split: prod.splits)
        then show ?thesis by (rule empty)
      next
        case c1: False
        from detect_bar_chart_run[OF c0 c1 thr] obtain bw2 fl where
          sh: "cv2_keeps_shape cv2 \<longrightarrow> map length bw2 = map length gray" and
          eq: "detect_bar_chart (Inr cv2) clk gray =
             (case findContours cv2 bw2 of
                Inl e \<Rightarrow> detect_bar_chart_error e fl
              | Inr cs \<Rightarrow>
                  bars_from_rects (map (boundingRect cv2) cs) (ncols gray) (nrows gray) fl)"
          by blast
        show ?thesis
        proof (cases "findContours cv2 bw2")
          case (Inl e)
          then have "fst (detect_bar_chart cv clk gray) = empty_bar_result"
            using eq Inr by (simp add: detect_bar_chart_error_def)
          then show ?thesis by (rule empty)
        next
          case cs: (Inr cs)
          then have "detect_bar_chart cv clk gray =
              bars_from_rects (map (boundingRect cv2) cs) (ncols gray) (nrows gray) fl"
            using eq Inr by simp
          with Inr sh cs show ?thesis using ok by blast
        qed
      qed
    qed
  qed
qed

lemma max_by_from_in: "max_by_from f best rs \<in> set (best # rs)"
  by (induction rs arbitrary: best) auto

lemma cluster_loop_subset:
  assumes "cur \<noteq> []" "set cur \<subseteq> S" "set rs \<subseteq> S"
    "\<forall>c\<in>set clusters. c \<noteq> [] \<and> set c \<subseteq> S"
  shows "\<forall>c\<in>set (cluster_loop m rs clusters cur cx). c \<noteq> [] \<and> set c \<subseteq> S"
  using assms
proof (induction rs arbitrary: clusters cur cx)
  case Nil
  then show ?case by simp
next
  case (Cons r rs)
  show ?case
  proof (cases "\<bar>x_center r - cx\<bar> \<le> m")
    case True
    have "\<forall>c\<in>set (cluster_loop m rs clusters (cur @ [r])
             (sum_list (map x_center (cur @ [r])) / real (length (cur @ [r])))).
            c \<noteq> [] \<and> set c \<subseteq> S"
      using Cons.prems by (intro Cons.IH) auto
    with True show ?thesis by (simp add: Let_def)
  next
    case False
    have "\<forall>c\<in>set (cluster_loop m rs (clusters @ [cur]) [r] (x_center r)).
            c \<noteq> [] \<and> set c \<subseteq> S"
      using Cons.prems by (intro Cons.IH) auto
    with False show ?thesis by (simp add: Let_def)
  qed
qed

lemma cluster_by_x_subset: "set (cluster_by_x rects m) \<subseteq> set rects"
proof (cases "sort_key x_center rects")
  case Nil
  then show ?thesis by (simp add: cluster_by_x_def)
next
  case (Cons r0 rs)
  have s: "set (r0 # rs) = set rects"
    using Cons[symmetric] by (simp only: set_sort)
  have inv: "\<forall>c\<in>set (cluster_loop (real_of_int m) rs [] [r0] (x_center r0)).
               c \<noteq> [] \<and> set c \<subseteq> set rects"
    using s by (intro cluster_loop_subset) auto
  have "\<And>c. c \<noteq> [] \<Longrightarrow> max_by_from rect_area (hd c) (tl c) \<in> set c"
    using max_by_from_in[of rect_area] by (metis list.collapse)
  with inv have "\<forall>c\<in>set (cluster_loop (real_of_int m) rs [] [r0] (x_center r0)).
      max_by_from rect_area (hd c) (tl c) \<in> set rects"
    by blast
  then show ?thesis
    using Cons by (simp add: cluster_by_x_def image_subset_iff)
qed

lemma filter_bar_candidates_subset: "set (filter_bar_candidates rects w h) \<subseteq> set rects"
  by (auto simp: filter_bar_candidates_def Let_def)

lemma classify_bars_props:
  "bar_count (fst (classify_bars bs h fl)) = int (length (bars (fst (classify_bars bs h fl))))"
  "set (bars (fst (classify_bars bs h fl))) = set bs"
  "bar_detected (fst (classify_bars bs h fl)) \<Longrightarrow>
     sorted (map fst (bars (fst (classify_bars bs h fl))))"
  unfolding classify_bars_def Let_def
  by (auto split: if_splits)

lemma bars_from_rects_props:
  "bar_count (fst (bars_from_rects rects w h fl)) =
     int (length (bars (fst (bars_from_rects rects w h fl))))"
  "set (bars (fst (bars_from_rects rects w h fl))) \<subseteq> set rects"
  "bar_detected (fst (bars_from_rects rects w h fl)) \<Longrightarrow>
     sorted (map fst (bars (fst (bars_from_rects rects w h fl))))"
proof -
  let ?c = "filter_bar_candidates rects w h"
  let ?bs = "cluster_by_x ?c (max 6 (int (int_mul_0_02 w)))"
  have sub: "set ?bs \<subseteq> set rects"
    using cluster_by_x_subset filter_bar_candidates_subset by blast
  show "bar_count (fst (bars_from_rects rects w h fl)) =
     int (length (bars (fst (bars_from_rects rects w h fl))))"
    by (simp add: bars_from_rects_def Let_def empty_bar_result_def classify_bars_props(1))
  show "set (bars (fst (bars_from_rects rects w h fl))) \<subseteq> set rects"
    using sub
    by (simp add: bars_from_rects_def Let_def empty_bar_result_def classify_bars_props(2))
  show "bar_detected (fst (bars_from_rects rects w h fl)) \<Longrightarrow>
     sorted (map fst (bars (fst (bars_from_rects rects w h fl))))"
    by (simp add: bars_from_rects_def Let_def empty_bar_result_def classify_bars_props(3)
        split: if_splits)
qed

lemma chart_gray_dims: "nrows (chart_gray rs) = 100" "ncols (chart_gray rs) = 100"
proof -
  show "nrows (chart_gray rs) = 100" by (simp add: nrows_def chart_gray_def)
  have "[0..<100] = 0 # [1..<100]" by (simp add: upt_conv_Cons)
  then show "ncols (chart_gray rs) = 100" by (simp add: ncols_def chart_gray_def)
qed

lemma chart_cv2_keeps_shape: "cv2_keeps_shape (chart_cv2 rs)"
  by (simp add: cv2_keeps_shape_def keeps_shape_def chart_cv2_def)

lemma chart_cv2_threshold:
  "\<exists>bw0. threshold_binary (chart_cv2 rs) gray = Inr bw0"
  by (simp add: threshold_binary_def chart_cv2_def)

lemma chart_detect_eval:
  "\<exists>fl. detect_bar_chart (Inr (chart_cv2 rs)) never_expired (chart_gray rs) =
          bars_from_rects (map bounding_box (map rect_contour rs)) 100 100 fl"
proof -
  obtain bw0 where thr: "threshold_binary (chart_cv2 rs) (chart_gray rs) = Inr bw0"
    using chart_cv2_threshold by blast
  have n: "\<not> never_expired 0" "\<not> never_expired 1" by (simp_all add: never_expired_def)
  from detect_bar_chart_run[OF n thr] chart_cv2_keeps_shape obtain bw2 fl where
    sh: "map length bw2 = map length (chart_gray rs)" and
    eq: "detect_bar_chart (Inr (chart_cv2 rs)) never_expired (chart_gray rs) =
           (case findContours (chart_cv2 rs) bw2 of
              Inl e \<Rightarrow> detect_bar_chart_error e fl
            | Inr cs \<Rightarrow>
                bars_from_rects (map (boundingRect (chart_cv2 rs)) cs)
                  (ncols (chart_gray rs)) (nrows (chart_gray rs)) fl)"
    by blast
  have d: "nrows bw2 = 100" "ncols bw2 = 100"
    using keeps_shape_dims[OF sh] chart_gray_dims by simp_all
  have fc: "findContours (chart_cv2 rs) bw2 = Inr (map rect_contour rs)"
    by (simp add: chart_cv2_def d)
  have br: "boundingRect (chart_cv2 rs) = bounding_box" by (simp add: chart_cv2_def)
  show ?thesis using eq unfolding fc br chart_gray_dims by auto
qed

lemma t100:
  "int_mul_0_00008 10000 = 0" "int_mul_0_06 100 = 6" "int_mul_0_008 100 = 0"
  "int_mul_0_6 100 = 60" "int_mul_0_9 100 = 90" "int_mul_0_02 100 = 2"
  by (simp_all add: int_mul_0_00008_def int_mul_0_06_def int_mul_0_008_def int_mul_0_6_def
      int_mul_0_9_def int_mul_0_02_def py_int_mul_def round53_def nbits.simps Let_def)

lemma ex_two_boxes: "map bounding_box (map rect_contour ex_two_rects) = ex_two_rects"
  by (simp add: ex_two_rects_def rect_contour_def bounding_box_def)

lemma ex_three_boxes: "map bounding_box (map rect_contour ex_three_bars) = ex_three_bars"
  by (simp add: ex_three_bars_def rect_contour_def bounding_box_def)

lemma ex_two_filter: "filter_bar_candidates ex_two_rects 100 100 = ex_two_rects"
  by (simp add: filter_bar_candidates_def t100 ex_two_rects_def Let_def)

lemma ex_three_filter: "filter_bar_candidates ex_three_bars 100 100 = ex_three_bars"
  by (simp add: filter_bar_candidates_def t100 ex_three_bars_def Let_def)

lemma ex_two_cluster: "cluster_by_x ex_two_rects 6 = [(10, 50, 10, 20), (0, 0, 50, 30)]"
  by (simp add: cluster_by_x_def ex_two_rects_def x_center_def rect_area_def)

lemma ex_three_cluster:
  "cluster_by_x ex_three_bars 6 = [(10, 40, 10, 40), (30, 20, 10, 60), (50, 50, 10, 30)]"
  by (simp add: cluster_by_x_def ex_three_bars_def x_center_def rect_area_def)

lemma ex_two_result:
  "fst (bars_from_rects ex_two_rects 100 100 fl) =
     \<lparr>bar_detected = False, bar_count = 2, bars = [(10, 50, 10, 20), (0, 0, 50, 30)],
      baseline_y = 0, score = 0\<rparr>"
  by (simp add: bars_from_rects_def ex_two_filter t100 ex_two_cluster)
    (simp add: ex_two_rects_def)

lemma ex_three_classify:
  "fst (classify_bars [(10, 40, 10, 40), (30, 20, 10, 60), (50, 50, 10, 30)] 100 fl) =
     \<lparr>bar_detected = True, bar_count = 3,
      bars = [(10, 40, 10, 40), (30, 20, 10, 60), (50, 50, 10, 30)],
      baseline_y = 80, score = 5 / 8\<rparr>"
  by (simp add: classify_bars_def np_median_def np_std_def np_mean_def py_int_def clamp01_def)

lemma ex_three_result:
  "fst (bars_from_rects ex_three_bars 100 100 fl) =
     \<lparr>bar_detected = True, bar_count = 3,
      bars = [(10, 40, 10, 40), (30, 20, 10, 60), (50, 50, 10, 30)],
      baseline_y = 80, score = 5 / 8\<rparr>"
  by (simp add: bars_from_rects_def ex_three_filter t100 ex_three_cluster ex_three_classify)
    (simp add: ex_three_bars_def)

lemma chart_cv2_rects_inside:
  assumes "\<forall>r\<in>set rs. rect_inside 100 100 (bounding_box (rect_contour r))"
  shows "cv2_rects_inside (chart_cv2 rs)"
  using assms unfolding cv2_rects_inside_def chart_cv2_def
  by (auto split: if_splits)

lemma ex_two_detect:
  "fst (detect_bar_chart (Inr (chart_cv2 ex_two_rects)) never_expired (chart_gray ex_two_rects)) =
     \<lparr>bar_detected = False, bar_count = 2, bars = [(10, 50, 10, 20), (0, 0, 50, 30)],
      baseline_y = 0, score = 0\<rparr>"
  using chart_detect_eval[of ex_two_rects] unfolding ex_two_boxes
  by (auto simp: ex_two_result)

lemma ex_three_detect:
  "fst (detect_bar_chart (Inr (chart_cv2 ex_three_bars)) never_expired (chart_gray ex_three_bars)) =
     \<lparr>bar_detected = True, bar_count = 3,
      bars = [(10, 40, 10, 40), (30, 20, 10, 60), (50, 50, 10, 30)],
      baseline_y = 80, score = 5 / 8\<rparr>"
  using chart_detect_eval[of ex_three_bars] unfolding ex_three_boxes
  by (auto simp: ex_three_result)

text \<open>
  C6, as stated: the rectangles are sorted by x whether or not a chart is detected. With
  two components, the wider one further left but with its centre further right, no chart
  is detected and the rectangles are returned in the order of their centres.
\<close>

theorem detect_bar_chart_sorted_counterexample:
  "\<not> bar_detected (fst (detect_bar_chart (Inr (chart_cv2 ex_two_rects)) never_expired
        (chart_gray ex_two_rects))) \<and>
   bars (fst (detect_bar_chart (Inr (chart_cv2 ex_two_rects)) never_expired
        (chart_gray ex_two_rects))) = [(10, 50, 10, 20), (0, 0, 50, 30)] \<and>
   \<not> sorted (map fst (bars (fst (detect_bar_chart (Inr (chart_cv2 ex_two_rects)) never_expired
        (chart_gray ex_two_rects)))))"
  by (simp add: ex_two_detect)

text \<open>
  C6, amended: every result of \<open>detect_bar_chart\<close> has \<open>bar_count = len(bars)\<close> and
  rectangles inside the image (given that OpenCV keeps the shape of an image and
  reports bounding rectangles inside it); the rectangles are sorted by x when a chart is
  detected.
\<close>

theorem detect_bar_chart_bars:
  assumes "\<forall>cv2. cv = Inr cv2 \<longrightarrow> cv2_keeps_shape cv2 \<and> cv2_rects_inside cv2"
  shows "bar_count (fst (detect_bar_chart cv clk gray)) =
           int (length (bars (fst (detect_bar_chart cv clk gray)))) \<and>
         (bar_detected (fst (detect_bar_chart cv clk gray)) \<longrightarrow>
            sorted (map fst (bars (fst (detect_bar_chart cv clk gray))))) \<and>
         (\<forall>b\<in>set (bars (fst (detect_bar_chart cv clk gray))).
            rect_inside (ncols gray) (nrows gray) b)"
proof (cases rule: detect_bar_chart_cases[of cv clk gray])
  case empty
  show ?thesis unfolding empty by (simp add: empty_bar_result_def)
next
  case (ok cv2 bw2 cs fl)
  have ks: "cv2_keeps_shape cv2" and ri: "cv2_rects_inside cv2"
    using assms ok(1) by simp_all
  have sh: "map length bw2 = map length gray" using ok(2) ks by simp
  have inside: "\<forall>b\<in>set (map (boundingRect cv2) cs). rect_inside (ncols gray) (nrows gray) b"
  proof
    fix b assume "b \<in> set (map (boundingRect cv2) cs)"
    then obtain c where c: "c \<in> set cs" and b: "b = boundingRect cv2 c" by auto
    from ri ok(3) c have "rect_inside (ncols bw2) (nrows bw2) (boundingRect cv2 c)"
      unfolding cv2_rects_inside_def by blast
    then show "rect_inside (ncols gray) (nrows gray) b"
      using keeps_shape_dims[OF sh] b by simp
  qed
  show ?thesis
    unfolding ok(4)
    using bars_from_rects_props[of "map (boundingRect cv2) cs" "ncols gray" "nrows gray" fl]
      inside by blast
qed

theorem detect_bar_chart_bars_witness:
  "cv2_keeps_shape (chart_cv2 ex_three_bars) \<and> cv2_rects_inside (chart_cv2 ex_three_bars) \<and>
   ncols (chart_gray ex_three_bars) = 100 \<and> nrows (chart_gray ex_three_bars) = 100 \<and>
   bar_detected (fst (detect_bar_chart (Inr (chart_cv2 ex_three_bars)) never_expired
      (chart_gray ex_three_bars))) \<and>
   bars (fst (detect_bar_chart (Inr (chart_cv2 ex_three_bars)) never_expired
      (chart_gray ex_three_bars))) = [(10, 40, 10, 40), (30, 20, 10, 60), (50, 50, 10, 30)] \<and>
   bar_count (fst (detect_bar_chart (Inr (chart_cv2 ex_three_bars)) never_expired
      (chart_gray ex_three_bars))) = 3 \<and>
   sorted (map fst [(10, 40, 10, 40), (30, 20, 10, 60), (50, 50, 10, 30 :: int)] :: int list) \<and>
   rect_inside 100 100 (10, 40, 10, 40) \<and> rect_inside 100 100 (30, 20, 10, 60) \<and>
   rect_inside 100 100 (50, 50, 10, 30)"
proof -
  have ri: "cv2_rects_inside (chart_cv2 ex_three_bars)"
    by (rule chart_cv2_rects_inside)
      (simp add: ex_three_bars_def rect_contour_def bounding_box_def rect_inside_def)
  have hyp: "\<forall>cv2. (Inr (chart_cv2 ex_three_bars) :: string + cv2_lib) = Inr cv2 \<longrightarrow>
               cv2_keeps_shape cv2 \<and> cv2_rects_inside cv2"
    using ri chart_cv2_keeps_shape by simp
  show ?thesis
    using detect_bar_chart_bars[OF hyp, of never_expired "chart_gray ex_three_bars"]
      ri chart_cv2_keeps_shape[of ex_three_bars]
    unfolding ex_three_detect chart_gray_dims
    by simp
qed








lemmas double_eval =
  to_double_def int_truediv_def fsub_def round_double_def rnd_def ilog2_def
  round_half_even_def pow2_def nbits.simps flt_def less_double_def less_eq_double_def Let_def

lemma extract_bar_chart_values:
  assumes "chart_values_computed d clk"
  shows "chart_values (fst (extract_bar_chart env sz d blocks clk el)) =
           bar_values (chart_mapping env sz d clk) (baseline_y d) (heights_px d)"
    and "chart_normalized (fst (extract_bar_chart env sz d blocks clk el)) \<longleftrightarrow>
           chart_mapping env sz d clk = None"
    and "chart_mapping env sz d clk \<noteq> None \<Longrightarrow>
           snd (extract_bar_chart env sz d blocks clk el) ''axis_mapping_succeeded'' =
             Some (JBool True)"
proof -
  obtain pts ofl where ap:
    "axis_points_of env sz (sort_key fst (bars d)) (baseline_y d) (clk 1) = (pts, ofl)"
    by (cases "axis_points_of env sz (sort_key fst (bars d)) (baseline_y d) (clk 1)")
  obtain labels hl where bl:
    "bar_labels sz (baseline_y d) (sort_key fst (bars d)) blocks = (labels, hl)"
    by (cases "bar_labels sz (baseline_y d) (sort_key fst (bars d)) blocks")
  have m: "chart_mapping env sz d clk =
             (if length pts \<ge> 2 then fit_linear_y_map env pts else None)"
    unfolding chart_mapping_def ap by (simp add: Let_def)
  have c: "bar_detected d" "\<not> bar_count d < 3" "bars d \<noteq> []" "\<not> clk 0"
    using assms by (simp_all add: chart_values_computed_def)
  show "chart_values (fst (extract_bar_chart env sz d blocks clk el)) =
           bar_values (chart_mapping env sz d clk) (baseline_y d) (heights_px d)"
    unfolding m extract_bar_chart_def extract_bar_chart_try_def ap bl
    by (simp add: c chart_values_def Let_def)
  show "chart_normalized (fst (extract_bar_chart env sz d blocks clk el)) \<longleftrightarrow>
           chart_mapping env sz d clk = None"
    unfolding m extract_bar_chart_def extract_bar_chart_try_def ap bl
    by (simp add: c chart_normalized_def Let_def)
  show "chart_mapping env sz d clk \<noteq> None \<Longrightarrow>
           snd (extract_bar_chart env sz d blocks clk el) ''axis_mapping_succeeded'' =
             Some (JBool True)"
    unfolding m extract_bar_chart_def extract_bar_chart_try_def ap bl
    by (auto simp add: c Let_def split: option.splits if_splits)
qed

lemma t100b: "int_mul_0_22 100 = 22" "int_mul_0_05 100 = 5"
  by (simp_all add: int_mul_0_22_def int_mul_0_05_def py_int_mul_def round53_def
      nbits.simps Let_def)

lemma ex_three_heights: "heights_px ex_three_detect_result = [40, 60, 30]"
  by (simp add: heights_px_def ex_three_detect_result_def)

lemma ex_three_computed: "chart_values_computed ex_three_detect_result never_expired"
  by (simp add: chart_values_computed_def ex_three_detect_result_def never_expired_def)

lemma ex_three_sorted:
  "sort_key fst (bars ex_three_detect_result) =
     [(10, 40, 10, 40), (30, 20, 10, 60), (50, 50, 10, 30)]"
  by (simp add: ex_three_detect_result_def)

lemma ex_four_computed: "chart_values_computed ex_four_detect_result never_expired"
  by (simp add: chart_values_computed_def ex_four_detect_result_def never_expired_def)

lemma ex_four_sorted:
  "sort_key fst (bars ex_four_detect_result) =
     [(10, 40, 10, 40), (30, 20, 10, 58), (50, 50, 10, 32), (70, 85, 10, 5)]"
  by (simp add: ex_four_detect_result_def)

lemma ex_strip_bottom:
  "float_to_int (fadd (to_double 80) (fmul (to_double 100) c_0_02)) = Some 82"
  by (simp add: c_0_02_def double_eval)



lemma ex_tick_heights:
  "fadd (to_double 20) (int_truediv 10 2) = Finite 25"
  "fadd (to_double 70) (int_truediv 10 2) = Finite 75"
  by (simp_all add: double_eval)

lemma ex_tick_gap: "flt (Finite 12) (fabs (fsub (Finite 75) (Finite 25)))"
  by (simp add: double_eval)

lemma ex_ticks_points:
  assumes "fold min (map fst (tl bs)) (fst (hd bs)) = 10"
  shows "fst (axis_points_of ticks_env (100, 100) bs 80 False) =
           [(Finite 25, Finite 100), (Finite 75, Finite 0)]"
  unfolding axis_points_of_def
  by (simp add: assms ex_strip_bottom t100 t100b ocr_strip_data_def ticks_env_def
      ex_tick_heights ex_tick_gap less_eq_double_def Let_def)

lemma ex_ticks_fit:
  "fit_linear_y_map ticks_env [(Finite 25, Finite 100), (Finite 75, Finite 0)] =
     Some (Finite ex_slope, Finite ex_intercept)"
  by (simp add: fit_linear_y_map_def ticks_env_def c_1e_6_def flt_def less_double_def Let_def)

lemma ex_ticks_mapping:
  "chart_mapping ticks_env (100, 100) ex_three_detect_result never_expired =
     Some (Finite ex_slope, Finite ex_intercept)"
  unfolding chart_mapping_def ex_three_sorted
  by (simp add: ex_three_detect_result_def never_expired_def ex_ticks_points ex_ticks_fit)

lemma ex_four_mapping:
  "chart_mapping ticks_env (100, 100) ex_four_detect_result never_expired =
     Some (Finite ex_slope, Finite ex_intercept)"
  unfolding chart_mapping_def ex_four_sorted
  by (simp add: ex_four_detect_result_def never_expired_def ex_ticks_points ex_ticks_fit)

lemma ex_ticks_values:
  "fsub (fadd (fmul (Finite ex_slope) (to_double 40)) (Finite ex_intercept))
        (fadd (fmul (Finite ex_slope) (to_double 80)) (Finite ex_intercept)) =
     Finite (2814749767106559 / 2 ^ 45)"
  "fsub (fadd (fmul (Finite ex_slope) (to_double 20)) (Finite ex_intercept))
        (fadd (fmul (Finite ex_slope) (to_double 80)) (Finite ex_intercept)) =
     Finite (8444249301319677 / 2 ^ 46)"
  "fsub (fadd (fmul (Finite ex_slope) (to_double 50)) (Finite ex_intercept))
        (fadd (fmul (Finite ex_slope) (to_double 80)) (Finite ex_intercept)) =
     Finite (2111062325329919 / 2 ^ 45)"
  "fsub (fadd (fmul (Finite ex_slope) (to_double 80)) (Finite ex_intercept))
        (fadd (fmul (Finite ex_slope) (to_double 80)) (Finite ex_intercept)) =
     Finite 0"
  by (simp_all add: ex_slope_def ex_intercept_def double_eval)








lemma ex_three_detect_is_result:
  "fst (detect_bar_chart (Inr (chart_cv2 ex_three_bars)) never_expired (chart_gray ex_three_bars))
     = ex_three_detect_result"
  by (simp add: ex_three_detect ex_three_detect_result_def)




text \<open>
  C8, as stated: when the axis calibration succeeds with the line \<open>v = a * y + b\<close>, the
  value of each bar equals \<open>- a * h_px\<close>. On the three bars detected above, with the tick
  labels 100 and 0 read at the heights 25 and 75, the fitted line has
  \<open>a = -1.9999999999999993\<close> and \<open>b = 149.99999999999997\<close>; the value of the third bar, of
  height 30, is 59.99999999999997, which is neither the double product \<open>- a * 30\<close>,
  59.99999999999998, nor the exact product.
\<close>

theorem extract_bar_chart_axis_counterexample:
  "chart_mapping ticks_env (100, 100)
     (fst (detect_bar_chart (Inr (chart_cv2 ex_three_bars)) never_expired
        (chart_gray ex_three_bars))) never_expired =
     Some (Finite ex_slope, Finite ex_intercept) \<and>
   ex_slope = - 9007199254740989 / 2 ^ 52 \<and> ex_intercept = 5277655813324799 / 2 ^ 45 \<and>
   heights_px (fst (detect_bar_chart (Inr (chart_cv2 ex_three_bars)) never_expired
      (chart_gray ex_three_bars))) = [40, 60, 30] \<and>
   chart_values (fst (extract_bar_chart ticks_env (100, 100)
      (fst (detect_bar_chart (Inr (chart_cv2 ex_three_bars)) never_expired
         (chart_gray ex_three_bars))) None never_expired 0)) =
     [Finite (2814749767106559 / 2 ^ 45), Finite (8444249301319677 / 2 ^ 46),
      Finite (2111062325329919 / 2 ^ 45)] \<and>
   fmul (fneg (Finite ex_slope)) (to_double 30) = Finite (8444249301319677 / 2 ^ 47) \<and>
   chart_values (fst (extract_bar_chart ticks_env (100, 100)
      (fst (detect_bar_chart (Inr (chart_cv2 ex_three_bars)) never_expired
         (chart_gray ex_three_bars))) None never_expired 0)) ! 2 \<noteq>
     fmul (fneg (Finite ex_slope)) (to_double 30) \<and>
   chart_values (fst (extract_bar_chart ticks_env (100, 100)
      (fst (detect_bar_chart (Inr (chart_cv2 ex_three_bars)) never_expired
         (chart_gray ex_three_bars))) None never_expired 0)) ! 2 \<noteq>
     Finite (- ex_slope * 30)"
proof -
  have v: "chart_values (fst (extract_bar_chart ticks_env (100, 100) ex_three_detect_result
      None never_expired 0)) =
     [Finite (2814749767106559 / 2 ^ 45), Finite (8444249301319677 / 2 ^ 46),
      Finite (2111062325329919 / 2 ^ 45)]"
    unfolding extract_bar_chart_values(1)[OF ex_three_computed] ex_ticks_mapping
      ex_three_heights
    by (simp add: bar_values_def ex_three_detect_result_def ex_ticks_values Let_def)
  have p: "fmul (fneg (Finite ex_slope)) (to_double 30) = Finite (8444249301319677 / 2 ^ 47)"
    by (simp add: ex_slope_def double_eval)
  have e: "Finite (2111062325329919 / 2 ^ 45) \<noteq> Finite (- ex_slope * 30)"
    by (simp add: ex_slope_def)
  show ?thesis
    unfolding ex_three_detect_is_result v p
    using e by (simp add: ex_ticks_mapping ex_three_heights ex_slope_def ex_intercept_def)
qed

text \<open>
  C8, amended: when the axis calibration succeeds with the line \<open>v = a * y + b\<close> and the
  baseline and the tops of the bars are in the range of a double, the value of each bar,
  taken in the order of x, is the result in double arithmetic of
  \<open>(a * (baseline - h_px) + b) - (a * baseline + b)\<close> with \<open>h_px = max(0, baseline - y)\<close>
  for the top \<open>y\<close> of the bar: the delta of the mapped top from the mapped baseline, each
  operation rounded. The flag \<open>axis_mapping_succeeded\<close> is set and the values are not
  normalized.
\<close>

theorem extract_bar_chart_axis_values:
  assumes "chart_values_computed d clk" and "chart_mapping env sz d clk = Some (a, b)"
    and "coords_fit d"
  shows "chart_values (fst (extract_bar_chart env sz d blocks clk el)) =
           map (\<lambda>(x, y, w, h).
                  fsub (fadd (fmul a (to_double (baseline_y d - max 0 (baseline_y d - y)))) b)
                       (fadd (fmul a (to_double (baseline_y d))) b))
               (sort_key fst (bars d)) \<and>
         snd (extract_bar_chart env sz d blocks clk el) ''axis_mapping_succeeded'' =
           Some (JBool True) \<and>
         \<not> chart_normalized (fst (extract_bar_chart env sz d blocks clk el))"
proof -
  let ?c = "fst (extract_bar_chart env sz d blocks clk el)"
  have v: "chart_values ?c =
           map (\<lambda>(x, y, w, h).
                  fsub (fadd (fmul a (to_double (baseline_y d - max 0 (baseline_y d - y)))) b)
                       (fadd (fmul a (to_double (baseline_y d))) b))
               (sort_key fst (bars d))"
    unfolding extract_bar_chart_values(1)[OF assms(1)] assms(2)
    by (simp add: bar_values_def heights_px_def Let_def split_def comp_def)
  have f: "snd (extract_bar_chart env sz d blocks clk el) ''axis_mapping_succeeded'' =
           Some (JBool True)"
    using extract_bar_chart_values(3)[OF assms(1), of env sz blocks el] assms(2) by simp
  have n: "\<not> chart_normalized ?c"
    using extract_bar_chart_values(2)[OF assms(1), of env sz blocks el] assms(2) by simp
  from v f n show ?thesis by blast
qed

theorem extract_bar_chart_axis_values_witness:
  "chart_values_computed ex_four_detect_result never_expired \<and>
   chart_mapping ticks_env (100, 100) ex_four_detect_result never_expired =
     Some (Finite ex_slope, Finite ex_intercept) \<and>
   coords_fit ex_four_detect_result \<and>
   sort_key fst (bars ex_four_detect_result) =
     [(10, 40, 10, 40), (30, 20, 10, 58), (50, 50, 10, 32), (70, 85, 10, 5)] \<and>
   chart_values (fst (extract_bar_chart ticks_env (100, 100) ex_four_detect_result None
      never_expired 0)) =
     [Finite (2814749767106559 / 2 ^ 45), Finite (8444249301319677 / 2 ^ 46),
      Finite (2111062325329919 / 2 ^ 45), Finite 0] \<and>
   snd (extract_bar_chart ticks_env (100, 100) ex_four_detect_result None never_expired 0)
      ''axis_mapping_succeeded'' = Some (JBool True) \<and>
   \<not> chart_normalized (fst (extract_bar_chart ticks_env (100, 100) ex_four_detect_result None
      never_expired 0))"
proof -
  have fits: "coords_fit ex_four_detect_result"
    by (simp add: coords_fit_def float_fits_def ex_four_detect_result_def)
  have b: "baseline_y ex_four_detect_result = 80"
    by (simp add: ex_four_detect_result_def)
  show ?thesis
    using extract_bar_chart_axis_values[OF ex_four_computed ex_four_mapping fits, of None 0]
      ex_four_computed ex_four_mapping fits
    unfolding ex_four_sorted b
    by (simp add: ex_ticks_values)
qed

lemma process_asset_result:
  "asset_type (fst (process_asset w img hash a)) =
     (if detected (table_detect_of w img) then Table else asset_type a)"
  "snd (process_asset w img hash a) =
     (if detected (table_detect_of w img) then [RunOcrLite, DetectTable, ExtractTable]
      else [RunOcrLite, DetectTable])"
  "confidence (fst (process_asset w img hash a)) =
     (if detected (table_detect_of w img) then
        (if has_ocr_text (ocr_of w img)
         then max (max (confidence a) (table_confidence (table_of w img)))
                  (max (extraction_confidence (ocr_of w img)) (table_confidence (table_of w img)))
         else min (max (confidence a) (table_confidence (table_of w img))) (1 / 4))
      else
        (if has_ocr_text (ocr_of w img)
         then max (confidence a) (extraction_confidence (ocr_of w img))
         else min (confidence a) (1 / 4)))"
  "json_table (structured (extraction (fst (process_asset w img hash a)))) =
     (if detected (table_detect_of w img) then Some (table_of w img) else
        json_table (structured (ocr_of w img)))"
  "json_chart (structured (extraction (fst (process_asset w img hash a)))) =
     (if detected (table_detect_of w img) then None else json_chart (structured (ocr_of w img)))"
  "image_hash (fst (process_asset w img hash a)) = Some hash"
  unfolding process_asset_def table_of_def table_detect_of_def ocr_of_def has_ocr_text_def
    Let_def
  by (simp_all split: prod.splits)

lemma extract_visuals_decoded:
  assumes "decoded w req bs img"
  shows "extract_visuals w req =
     (respond req [fst (process_asset w img (sha256_hex w bs)
                          (hd (detect_layout_assets (req_extractor_version req)
                                 (ncols img) (nrows img))))],
      [snd (process_asset w img (sha256_hex w bs)
              (hd (detect_layout_assets (req_extractor_version req) (ncols img) (nrows img))))])"
proof -
  obtain lf where r: "read_image_bytes w (req_image_uri req) = (Some bs, lf)"
    using assms unfolding decoded_def by (cases "read_image_bytes w (req_image_uri req)") auto
  have o: "image_open w bs = Inr img" and ne: "bs \<noteq> []" using assms by (simp_all add: decoded_def)
  show ?thesis
    unfolding extract_visuals_def r
    by (simp add: o ne Let_def detect_layout_assets_def)
qed

lemma run_ocr_lite_structured:
  "structured (fst (run_ocr_lite t img)) = \<lparr>json_table = None, json_chart = None\<rparr>"
  unfolding run_ocr_lite_def Let_def
  by (simp add: empty_extraction_def split: sum.splits)

lemma layout_asset:
  "hd (detect_layout_assets v w h) =
     \<lparr>asset_type = ImageText, bbox = full_bbox, confidence = 1 / 2,
      quality_flags = [''layout'' \<mapsto> JStr ''fallback_full_page''],
      image_uri = None, image_hash = None, extraction = empty_extraction\<rparr>"
  by (simp add: detect_layout_assets_def)

lemma read_image_bytes_no_error_flag:
  "snd (read_image_bytes w uri) ''error'' = None"
  unfolding read_image_bytes_def by (simp split: sum.splits)

lemma extract_visuals_load_failed:
  assumes "fst (read_image_bytes w (req_image_uri req)) = None \<or>
           fst (read_image_bytes w (req_image_uri req)) = Some []"
  shows "extract_visuals w req =
     (respond req [error_asset ''image_load_failed''
                     (snd (read_image_bytes w (req_image_uri req))) None], [])"
  using assms unfolding extract_visuals_def
  by (cases "read_image_bytes w (req_image_uri req)") auto

lemma extract_visuals_decode_failed:
  assumes "fst (read_image_bytes w (req_image_uri req)) = Some bs" "bs \<noteq> []"
    "image_open w bs = Inl e"
  shows "extract_visuals w req =
     (respond req [error_asset ''image_decode_failed''
                     [''image_decode'' \<mapsto> JStr ''failed'',
                      ''image_decode_error'' \<mapsto> JStr (exn_text e)]
                     (Some (sha256_hex w bs))], [])"
  using assms unfolding extract_visuals_def
  by (cases "read_image_bytes w (req_image_uri req)") (auto simp: Let_def)

lemma error_asset_fields:
  "asset_type (error_asset err fl hash) = Unknown"
  "confidence (error_asset err fl hash) = 0"
  "image_hash (error_asset err fl hash) = hash"
  "fl ''error'' = None \<Longrightarrow> quality_flags (error_asset err fl hash) ''error'' = Some (JStr err)"
  by (simp_all add: error_asset_def map_add_def)

lemma empty_file_read:
  "read_image_bytes empty_file_world (req_image_uri ex_req) = (Some [], Map.empty)"
  by (simp add: read_image_bytes_def empty_file_world_def grid_world_def ex_req_def
      startswith_def)

lemma bad_file_read:
  "read_image_bytes bad_file_world (req_image_uri ex_req) = (Some [137, 80, 78, 71], Map.empty)"
  by (simp add: read_image_bytes_def bad_file_world_def grid_world_def ex_req_def
      startswith_def)

lemma http_read:
  "fst (read_image_bytes grid_world (req_image_uri http_req)) = None"
  by (simp add: read_image_bytes_def grid_world_def http_req_def ex_req_def startswith_def)

text \<open>
  C9, as stated: bytes that cannot be decoded give \<open>image_decode_failed\<close> with the hash of
  the bytes. An empty file is read without error and cannot be decoded, and the response
  has \<open>image_load_failed\<close> and no hash.
\<close>

theorem extract_visuals_empty_file_counterexample:
  "fst (read_image_bytes empty_file_world (req_image_uri ex_req)) = Some [] \<and>
   image_open empty_file_world [] = Inl (Exception ''cannot identify image file'') \<and>
   quality_flags (the_asset (extract_visuals empty_file_world ex_req)) ''error'' =
     Some (JStr ''image_load_failed'') \<and>
   image_hash (the_asset (extract_visuals empty_file_world ex_req)) = None \<and>
   quality_flags (the_asset (extract_visuals empty_file_world ex_req)) ''error'' \<noteq>
     Some (JStr ''image_decode_failed'') \<and>
   image_hash (the_asset (extract_visuals empty_file_world ex_req)) \<noteq>
     Some (sha256_hex empty_file_world [])"
proof -
  have r: "fst (read_image_bytes empty_file_world (req_image_uri ex_req)) = Some []"
    by (simp add: empty_file_read)
  have o: "image_open empty_file_world [] = Inl (Exception ''cannot identify image file'')"
    by (simp add: empty_file_world_def)
  have a: "the_asset (extract_visuals empty_file_world ex_req) =
             error_asset ''image_load_failed'' Map.empty None"
    unfolding extract_visuals_load_failed[OF disjI2[OF r]] empty_file_read
    by (simp add: the_asset_def respond_def)
  show ?thesis unfolding a using r o by (simp add: error_asset_fields)
qed

text \<open>
  C9, amended: when the bytes cannot be fetched, or the content fetched is empty, the
  response is HTTP 200 with one \<open>unknown\<close> asset of confidence 0, the error
  \<open>image_load_failed\<close> and no hash; when non-empty bytes cannot be decoded, the error is
  \<open>image_decode_failed\<close> and the hash is the digest of the bytes.
\<close>

theorem extract_visuals_load_decode_failure:
  "(fst (read_image_bytes w (req_image_uri req)) = None \<or>
    fst (read_image_bytes w (req_image_uri req)) = Some [] \<longrightarrow>
      status_code (fst (extract_visuals w req)) = 200 \<and>
      length (assets (content (fst (extract_visuals w req)))) = 1 \<and>
      asset_type (the_asset (extract_visuals w req)) = Unknown \<and>
      confidence (the_asset (extract_visuals w req)) = 0 \<and>
      quality_flags (the_asset (extract_visuals w req)) ''error'' =
        Some (JStr ''image_load_failed'') \<and>
      image_hash (the_asset (extract_visuals w req)) = None) \<and>
   (\<forall>bs e. fst (read_image_bytes w (req_image_uri req)) = Some bs \<and> bs \<noteq> [] \<and>
           image_open w bs = Inl e \<longrightarrow>
      status_code (fst (extract_visuals w req)) = 200 \<and>
      length (assets (content (fst (extract_visuals w req)))) = 1 \<and>
      asset_type (the_asset (extract_visuals w req)) = Unknown \<and>
      confidence (the_asset (extract_visuals w req)) = 0 \<and>
      quality_flags (the_asset (extract_visuals w req)) ''error'' =
        Some (JStr ''image_decode_failed'') \<and>
      image_hash (the_asset (extract_visuals w req)) = Some (sha256_hex w bs))"
proof (intro conjI impI allI)
  assume a: "fst (read_image_bytes w (req_image_uri req)) = None \<or>
             fst (read_image_bytes w (req_image_uri req)) = Some []"
  note e = extract_visuals_load_failed[OF a]
  show "status_code (fst (extract_visuals w req)) = 200" by (simp add: e respond_def)
  show "length (assets (content (fst (extract_visuals w req)))) = 1"
    by (simp add: e respond_def)
  show "asset_type (the_asset (extract_visuals w req)) = Unknown"
    by (simp add: e respond_def the_asset_def error_asset_fields)
  show "confidence (the_asset (extract_visuals w req)) = 0"
    by (simp add: e respond_def the_asset_def error_asset_fields)
  show "quality_flags (the_asset (extract_visuals w req)) ''error'' =
        Some (JStr ''image_load_failed'')"
    by (simp add: e respond_def the_asset_def error_asset_fields(4)
        read_image_bytes_no_error_flag)
  show "image_hash (the_asset (extract_visuals w req)) = None"
    by (simp add: e respond_def the_asset_def error_asset_fields)
next
  fix bs e
  assume a: "fst (read_image_bytes w (req_image_uri req)) = Some bs \<and> bs \<noteq> [] \<and>
             image_open w bs = Inl e"
  then have a1: "fst (read_image_bytes w (req_image_uri req)) = Some bs" and a2: "bs \<noteq> []"
    and a3: "image_open w bs = Inl e" by simp_all
  note d = extract_visuals_decode_failed[OF a1 a2 a3]
  show "status_code (fst (extract_visuals w req)) = 200" by (simp add: d respond_def)
  show "length (assets (content (fst (extract_visuals w req)))) = 1"
    by (simp add: d respond_def)
  show "asset_type (the_asset (extract_visuals w req)) = Unknown"
    by (simp add: d respond_def the_asset_def error_asset_fields)
  show "confidence (the_asset (extract_visuals w req)) = 0"
    by (simp add: d respond_def the_asset_def error_asset_fields)
  show "quality_flags (the_asset (extract_visuals w req)) ''error'' =
        Some (JStr ''image_decode_failed'')"
    by (simp add: d respond_def the_asset_def error_asset_fields(4))
  show "image_hash (the_asset (extract_visuals w req)) = Some (sha256_hex w bs)"
    by (simp add: d respond_def the_asset_def error_asset_fields)
qed

theorem extract_visuals_load_decode_failure_witness:
  "fst (read_image_bytes grid_world (req_image_uri http_req)) = None \<and>
   status_code (fst (extract_visuals grid_world http_req)) = 200 \<and>
   length (assets (content (fst (extract_visuals grid_world http_req)))) = 1 \<and>
   asset_type (the_asset (extract_visuals grid_world http_req)) = Unknown \<and>
   confidence (the_asset (extract_visuals grid_world http_req)) = 0 \<and>
   quality_flags (the_asset (extract_visuals grid_world http_req)) ''error'' =
     Some (JStr ''image_load_failed'') \<and>
   image_hash (the_asset (extract_visuals grid_world http_req)) = None \<and>
   fst (read_image_bytes bad_file_world (req_image_uri ex_req)) = Some [137, 80, 78, 71] \<and>
   image_open bad_file_world [137, 80, 78, 71] = Inl (Exception ''cannot identify image file'') \<and>
   status_code (fst (extract_visuals bad_file_world ex_req)) = 200 \<and>
   length (assets (content (fst (extract_visuals bad_file_world ex_req)))) = 1 \<and>
   asset_type (the_asset (extract_visuals bad_file_world ex_req)) = Unknown \<and>
   confidence (the_asset (extract_visuals bad_file_world ex_req)) = 0 \<and>
   quality_flags (the_asset (extract_visuals bad_file_world ex_req)) ''error'' =
     Some (JStr ''image_decode_failed'') \<and>
   image_hash (the_asset (extract_visuals bad_file_world ex_req)) =
     Some (sha256_hex bad_file_world [137, 80, 78, 71])"
proof -
  have b: "fst (read_image_bytes bad_file_world (req_image_uri ex_req)) = Some [137, 80, 78, 71]"
    by (simp add: bad_file_read)
  have o: "image_open bad_file_world [137, 80, 78, 71] =
             Inl (Exception ''cannot identify image file'')"
    by (simp add: bad_file_world_def)
  have ne: "[137, 80, 78, 71 :: byte] \<noteq> []" by simp
  show ?thesis
    using extract_visuals_load_decode_failure[of grid_world http_req]
      extract_visuals_load_decode_failure[of bad_file_world ex_req] http_read b o ne
    by blast
qed

lemma t35: "int_mul_0_35 100 = 35"
  by (simp add: int_mul_0_35_def py_int_mul_def round53_def nbits.simps Let_def)

lemma chart_bw_dims: "nrows chart_bw = 100" "ncols chart_bw = 100"
proof -
  have "map length chart_bw = map length (chart_gray ex_three_bars)"
    by (simp add: chart_bw_def comp_def)
  from keeps_shape_dims[OF this] show "nrows chart_bw = 100" "ncols chart_bw = 100"
    by (simp_all add: chart_gray_dims)
qed

lemma bar_row_count:
  "length (filter (\<lambda>i. \<exists>(x, y, w, h)\<in>set ex_three_bars.
                          x \<le> int i \<and> int i < x + w \<and> y \<le> int j \<and> int j < y + h)
             [0..<100]) \<le> 30"
proof -
  let ?P = "\<lambda>i. \<exists>(x, y, w, h)\<in>set ex_three_bars.
                   x \<le> int i \<and> int i < x + w \<and> y \<le> int j \<and> int j < y + h"
  have "length (filter ?P [0..<100]) = card ({i. ?P i} \<inter> set [0..<100])"
    by (rule distinct_length_filter) simp
  also have "\<dots> \<le> card ({10..<20} \<union> {30..<40} \<union> {50..<60} :: nat set)"
    by (rule card_mono) (auto simp: ex_three_bars_def)
  also have "\<dots> \<le> card ({10..<20} \<union> {30..<40} :: nat set) + card ({50..<60} :: nat set)"
    by (rule card_Un_le)
  also have "\<dots> \<le> card ({10..<20} :: nat set) + card ({30..<40} :: nat set)
                  + card ({50..<60} :: nat set)"
    using card_Un_le[of "{10..<20} :: nat set" "{30..<40}"] by simp
  also have "\<dots> = 30" by simp
  finally show ?thesis .
qed

lemma chart_bw_proj_rows:
  "proj_rows chart_bw =
     map (\<lambda>j. length (filter (\<lambda>i. \<exists>(x, y, w, h)\<in>set ex_three_bars.
                          x \<le> int i \<and> int i < x + w \<and> y \<le> int j \<and> int j < y + h)
                        [0..<100])) [0..<100]"
  unfolding proj_rows_def chart_bw_def chart_gray_def
  by (simp add: filter_map comp_def cong: if_cong)

lemma chart_bw_proj: "\<forall>c\<in>set (proj_rows chart_bw). c \<le> 30"
  unfolding chart_bw_proj_rows using bar_row_count by auto

lemma np_where_ge_empty:
  assumes "\<forall>c\<in>set proj. c < t"
  shows "np_where_ge proj t = []"
proof -
  have "\<And>i. i < length proj \<Longrightarrow> \<not> t \<le> proj ! i"
    using assms nth_mem by fastforce
  then show ?thesis by (simp add: np_where_ge_def filter_empty_conv)
qed

lemma chart_bw_no_rows: "line_positions_from_mask chart_bw AxisH = []"
proof -
  have "\<forall>c\<in>set (proj_rows chart_bw). c < 35" using chart_bw_proj by fastforce
  from np_where_ge_empty[OF this] show ?thesis
    by (simp add: line_positions_from_mask_def Let_def chart_bw_dims t35)
qed

lemma chart_world_not_table:
  "\<not> detected (fst (detect_table (Inr (chart_cv2 ex_three_bars)) never_expired
        (chart_gray ex_three_bars)))"
proof -
  have thr: "threshold_binary (chart_cv2 ex_three_bars) (chart_gray ex_three_bars) = Inr chart_bw"
    by (simp add: threshold_binary_def chart_cv2_def chart_bw_def)
  have l: "extract_lines (chart_cv2 ex_three_bars) chart_bw ax = Inr chart_bw" for ax
    by (simp add: extract_lines_def chart_cv2_def Let_def)
  have "table_run (Inr (chart_cv2 ex_three_bars)) never_expired (chart_gray ex_three_bars)
          chart_bw chart_bw chart_bw (map2 (map2 (OR)) chart_bw chart_bw)
          (map2 (map2 (AND)) chart_bw chart_bw)"
    by (simp add: table_run_def never_expired_def thr l bitwise_or_def bitwise_and_def)
  from table_run_result[OF this] show ?thesis
    by (simp add: chart_bw_no_rows)
qed

lemma grid_decoded:
  "decoded grid_world ex_req [137, 80, 78, 71] ex_gray"
  "decoded text_grid_world ex_req [137, 80, 78, 71] ex_gray"
  "decoded chart_world ex_req [137, 80, 78, 71] (chart_gray ex_three_bars)"
  by (simp_all add: decoded_def read_image_bytes_def grid_world_def text_grid_world_def
      chart_world_def ex_req_def startswith_def)

lemma grid_table_detect:
  "table_detect_of grid_world ex_gray =
     \<lparr>detected = True, grid_detected = True, method = ''grid_lines_v1'',
      line_pixel_ratio = 1, intersections_count = 9,
      x_lines = [1, 4, 7], y_lines = [1, 4, 7]\<rparr>"
  "table_detect_of text_grid_world ex_gray = table_detect_of grid_world ex_gray"
  by (simp_all add: table_detect_of_def grid_world_def text_grid_world_def ex_detect)

lemma chart_table_detect:
  "\<not> detected (table_detect_of chart_world (chart_gray ex_three_bars))"
  using chart_world_not_table
  by (simp add: table_detect_of_def chart_world_def grid_world_def)




lemma the_asset_decoded:
  assumes "decoded w req bs img"
  shows "the_asset (extract_visuals w req) =
           fst (process_asset w img (sha256_hex w bs)
                  (hd (detect_layout_assets (req_extractor_version req) (ncols img) (nrows img))))"
    and "snd (extract_visuals w req) =
           [snd (process_asset w img (sha256_hex w bs)
                  (hd (detect_layout_assets (req_extractor_version req) (ncols img) (nrows img))))]"
    and "length (assets (content (fst (extract_visuals w req)))) = 1"
  unfolding extract_visuals_decoded[OF assms]
  by (simp_all add: the_asset_def respond_def)

lemma chart_world_bar_detected:
  "bar_detected (fst (detect_bar_chart (import_cv2 chart_world) never_expired
      (chart_gray ex_three_bars)))"
  by (simp add: chart_world_def grid_world_def ex_three_detect)

text \<open>
  C1, as stated: when table detection is negative the orchestrator runs bar-chart
  detection and, when that is positive, promotes the asset to \<open>chart\<close>. On the image of
  three bars table detection is negative and \<open>detect_bar_chart\<close> is positive, yet the
  request runs OCR-lite and table detection only and the asset stays \<open>image_text\<close>.
\<close>

theorem extract_visuals_chart_counterexample:
  "decoded chart_world ex_req [137, 80, 78, 71] (chart_gray ex_three_bars) \<and>
   \<not> detected (table_detect_of chart_world (chart_gray ex_three_bars)) \<and>
   bar_detected (fst (detect_bar_chart (import_cv2 chart_world) never_expired
      (chart_gray ex_three_bars))) \<and>
   snd (extract_visuals chart_world ex_req) = [[RunOcrLite, DetectTable]] \<and>
   DetectBarChart \<notin> set (concat (snd (extract_visuals chart_world ex_req))) \<and>
   asset_type (the_asset (extract_visuals chart_world ex_req)) = ImageText \<and>
   asset_type (the_asset (extract_visuals chart_world ex_req)) \<noteq> Chart"
proof -
  note d = grid_decoded(3)
  have t: "snd (extract_visuals chart_world ex_req) = [[RunOcrLite, DetectTable]]"
    unfolding the_asset_decoded(2)[OF d] process_asset_result(2)
    using chart_table_detect by simp
  have a: "asset_type (the_asset (extract_visuals chart_world ex_req)) = ImageText"
    unfolding the_asset_decoded(1)[OF d] process_asset_result(1)
    using chart_table_detect by (simp add: layout_asset)
  show ?thesis
    unfolding t a using d chart_table_detect chart_world_bar_detected by simp
qed

text \<open>
  C1, amended: for a request whose image loads and decodes, the single region runs
  OCR-lite and then table detection; when the table is detected, table extraction is
  run, the asset becomes a \<open>table\<close> and carries the extracted table, and otherwise the
  asset stays \<open>image_text\<close>. No bar-chart stage is run and no chart is attached.
\<close>

theorem extract_visuals_stages:
  assumes "decoded w req bs img"
  shows "snd (extract_visuals w req) =
           [if detected (table_detect_of w img) then [RunOcrLite, DetectTable, ExtractTable]
            else [RunOcrLite, DetectTable]] \<and>
         length (assets (content (fst (extract_visuals w req)))) = 1 \<and>
         asset_type (the_asset (extract_visuals w req)) =
           (if detected (table_detect_of w img) then Table else ImageText) \<and>
         json_table (structured (extraction (the_asset (extract_visuals w req)))) =
           (if detected (table_detect_of w img) then Some (table_of w img) else None) \<and>
         json_chart (structured (extraction (the_asset (extract_visuals w req)))) = None"
  unfolding the_asset_decoded[OF assms] process_asset_result
  by (simp add: layout_asset ocr_of_def run_ocr_lite_structured)

theorem extract_visuals_stages_witness:
  "decoded grid_world ex_req [137, 80, 78, 71] ex_gray \<and>
   detected (table_detect_of grid_world ex_gray) \<and>
   snd (extract_visuals grid_world ex_req) = [[RunOcrLite, DetectTable, ExtractTable]] \<and>
   asset_type (the_asset (extract_visuals grid_world ex_req)) = Table \<and>
   json_table (structured (extraction (the_asset (extract_visuals grid_world ex_req)))) =
     Some (table_of grid_world ex_gray) \<and>
   decoded chart_world ex_req [137, 80, 78, 71] (chart_gray ex_three_bars) \<and>
   \<not> detected (table_detect_of chart_world (chart_gray ex_three_bars)) \<and>
   snd (extract_visuals chart_world ex_req) = [[RunOcrLite, DetectTable]] \<and>
   asset_type (the_asset (extract_visuals chart_world ex_req)) = ImageText \<and>
   json_chart (structured (extraction (the_asset (extract_visuals chart_world ex_req)))) = None"
proof -
  have g: "detected (table_detect_of grid_world ex_gray)" by (simp add: grid_table_detect)
  show ?thesis
    using extract_visuals_stages[OF grid_decoded(1)] extract_visuals_stages[OF grid_decoded(3)]
      g chart_table_detect grid_decoded(1) grid_decoded(3)
    by simp
qed




end
